theory Spec2Isabelle
  imports Complex_Main "HOL-Library.Sublist" "HOL-Library.AList"
begin

section \<open>Python strings\<close>

text \<open>
  A Python string is the list of its code points, so that \<open>len\<close> is \<open>length\<close> and a
  lone surrogate such as \<open>0xD800\<close> is a character like any other. \<open>lit\<close> turns a
  literal of the theory into such a string, and \<open>sub in s\<close> is \<open>sublist sub s\<close> (a
  contiguous occurrence).
\<close>

type_synonym str = "nat list"

definition lit :: "string \<Rightarrow> str" where
  "lit s = map of_char s"

definition is_space :: "nat \<Rightarrow> bool" where
  \<comment> \<open>\<open>str.isspace\<close> on one character: the 29 code points of Unicode white space\<close>
  "is_space n =
     ((9 \<le> n \<and> n \<le> 13) \<or> (28 \<le> n \<and> n \<le> 32) \<or> n = 133 \<or> n = 160 \<or> n = 5760
      \<or> (8192 \<le> n \<and> n \<le> 8202) \<or> n = 8232 \<or> n = 8233 \<or> n = 8239 \<or> n = 8287
      \<or> n = 12288)"

definition strip :: "str \<Rightarrow> str" where
  \<comment> \<open>\<open>s.strip()\<close>: white space removed at both ends\<close>
  "strip s = rev (dropWhile is_space (rev (dropWhile is_space s)))"

fun join :: "str \<Rightarrow> str list \<Rightarrow> str" where
  \<comment> \<open>\<open>sep.join(xs)\<close>\<close>
  "join sep [] = []"
| "join sep [x] = x"
| "join sep (x # y # ys) = x @ sep @ join sep (y # ys)"

fun str_nat :: "nat \<Rightarrow> str" where
  \<comment> \<open>the decimal digits of a natural number; the digit \<open>d\<close> is the code point \<open>48 + d\<close>\<close>
  "str_nat n = (if n < 10 then [48 + n] else str_nat (n div 10) @ [48 + n mod 10])"

definition str_int :: "int \<Rightarrow> str" where
  \<comment> \<open>\<open>str(i)\<close>, as an f-string prints an integer\<close>
  "str_int i = (if i < 0 then 45 # str_nat (nat (- i)) else str_nat (nat i))"

definition bs :: str where
  \<comment> \<open>the backslash of a raw pattern string\<close>
  "bs = [92]"

definition sq :: str where
  \<comment> \<open>the single quote inside a message\<close>
  "sq = [39]"


section \<open>Exceptions\<close>

text \<open>
  A call returns a value (\<open>Inr\<close>) or raises (\<open>Inl\<close>). \<open>Raised\<close> is an exception that a
  library raises and the tools do not catch, by the name of its class. \<open>and_then\<close> runs
  the rest of a computation on the value of a call that returned; \<open>for_each\<close> is a loop
  that calls \<open>f\<close> on the elements in order and stops at the first exception.
\<close>

datatype error = KeyError str | ZeroDivisionError | Raised string

definition and_then :: "error + 'a \<Rightarrow> ('a \<Rightarrow> error + 'b) \<Rightarrow> error + 'b" where
  "and_then r f = (case r of Inl e \<Rightarrow> Inl e | Inr x \<Rightarrow> f x)"

fun for_each :: "('a \<Rightarrow> error + 'b) \<Rightarrow> 'a list \<Rightarrow> error + 'b list" where
  "for_each f [] = Inr []"
| "for_each f (x # xs) =
     and_then (f x) (\<lambda>y. and_then (for_each f xs) (\<lambda>ys. Inr (y # ys)))"


section \<open>The libraries the tools call\<close>

text \<open>
  \<open>xml.etree.ElementTree\<close>, \<open>json\<close>, \<open>re\<close>, the Unicode tables behind \<open>str.lower\<close> and
  the floating-point arithmetic are not part of the repository. The parsed tree is a
  datatype with the three attributes the tools read. What the libraries compute is a
  parameter of the model, one field of \<open>pylib\<close> for each kind of call the tools make,
  with every outcome the call can have: \<open>ET.fromstring\<close> returns the root, raises
  \<open>ParseError\<close> (which the tools catch) or raises something else; \<open>json.loads\<close> returns,
  raises \<open>JSONDecodeError\<close> (caught) or raises something else; \<open>Element.findall\<close> and
  the functions of \<open>re\<close> return or raise (a path or a pattern that the library does not
  accept).

  Numbers are real numbers. A score that one metric or the validator computes from
  two integers (a quotient, scaled by 100 in the validator) is written exactly. The
  analyzer then adds and multiplies the scores of several metrics: a sum of floats
  rounds at every step, so that it depends on the order and can leave the bounds of the
  exact sum. These operations are therefore the library's, and the theorems hold
  for every rounding: \<open>float_sum\<close> is \<open>sum\<close> on a list of floats, \<open>float_mul\<close> and
  \<open>float_div\<close> are \<open>*\<close> and \<open>/\<close> on floats.
\<close>

datatype element = Element (tag: str) (elem_text: "str option") (children: "element list")
  \<comment> \<open>\<open>elem_text\<close> is the attribute \<open>text\<close>; \<open>children e\<close> is \<open>list(e)\<close>\<close>

fun iter :: "element \<Rightarrow> element list" where
  \<comment> \<open>\<open>list(e.iter())\<close>: the element and its descendants in document order\<close>
  "iter (Element t x cs) = Element t x cs # concat (map iter cs)"

datatype parse_outcome = Parsed element | ParseError str | ParseRaised error
  \<comment> \<open>\<open>ParseError\<close> carries \<open>str(e)\<close>\<close>

datatype json_outcome = Loaded | JSONDecodeError | JSONRaised error

record pylib =
  fromstring :: "str \<Rightarrow> parse_outcome"
    \<comment> \<open>\<open>ET.fromstring(s)\<close>\<close>
  json_loads :: "str \<Rightarrow> json_outcome"
    \<comment> \<open>\<open>json.loads(s)\<close>\<close>
  findall :: "element \<Rightarrow> str \<Rightarrow> error + element list"
    \<comment> \<open>\<open>e.findall(path)\<close>\<close>
  re_match :: "str \<Rightarrow> str \<Rightarrow> error + bool"
    \<comment> \<open>\<open>re.match(pattern, s)\<close> is a match\<close>
  re_search :: "str \<Rightarrow> str \<Rightarrow> error + bool"
    \<comment> \<open>\<open>re.search(pattern, s)\<close> is a match\<close>
  re_search_ignorecase :: "str \<Rightarrow> str \<Rightarrow> error + bool"
    \<comment> \<open>\<open>re.search(pattern, s, re.IGNORECASE)\<close> is a match\<close>
  re_findall :: "str \<Rightarrow> str \<Rightarrow> error + str list"
    \<comment> \<open>\<open>re.findall(pattern, s)\<close> for a pattern with at most one group\<close>
  re_findall_dotall :: "str \<Rightarrow> str \<Rightarrow> error + (str \<times> str) list"
    \<comment> \<open>\<open>re.findall(pattern, s, re.DOTALL)\<close> for a pattern with two groups\<close>
  lower :: "str \<Rightarrow> str"
    \<comment> \<open>\<open>s.lower()\<close>\<close>
  format_percent :: "real \<Rightarrow> str"
    \<comment> \<open>the format \<open>{x:.1%}\<close>\<close>
  float_sum :: "real list \<Rightarrow> real"
    \<comment> \<open>\<open>sum(xs)\<close> on floats\<close>
  float_mul :: "real \<Rightarrow> real \<Rightarrow> real"
    \<comment> \<open>\<open>x * y\<close> on floats\<close>
  float_div :: "real \<Rightarrow> real \<Rightarrow> real"
    \<comment> \<open>\<open>x / y\<close> on floats, for \<open>y\<close> other than 0\<close>


section \<open>The response analyzer\<close>

subsection \<open>Data\<close>

text \<open>
  \<open>QualityMetric.criteria\<close> is a dictionary; each key the analyzer reads is an optional
  field (\<open>None\<close>: the key is absent). The key \<open>keywords\<close> of some built-in metrics is
  never read and is left out.
\<close>

record criteria =
  validation_type :: "str option"
  check_nesting :: "bool option"
  min_chars :: "int option"
  min_sections :: "int option"
  min_content_ratio :: "real option"
  required_tags :: "str list option"
  required_values :: "str list option"
  patterns :: "str list option"
  blacklist :: "str list option"

definition no_criteria :: criteria where
  \<comment> \<open>the empty dictionary\<close>
  "no_criteria = \<lparr>validation_type = None, check_nesting = None, min_chars = None,
     min_sections = None, min_content_ratio = None, required_tags = None,
     required_values = None, patterns = None, blacklist = None\<rparr>"

record metric =
  name :: str
  description :: str
  weight :: real
  threshold :: real
  measurement_type :: str
  criteria :: criteria

text \<open>A measurement returns the score, the issues and the suggestions it appended.\<close>

type_synonym measured = "real \<times> str list \<times> str list"


subsection \<open>Measurements\<close>

definition measure_binary :: "pylib \<Rightarrow> str \<Rightarrow> metric \<Rightarrow> error + measured" where
  "measure_binary lib response m =
     (if validation_type (criteria m) = Some (lit ''xml_json'') then
        (case fromstring lib response of
           Parsed tree \<Rightarrow> Inr (1, [], [])
         | ParseRaised x \<Rightarrow> Inl x
         | ParseError e \<Rightarrow>
             (case json_loads lib response of
                Loaded \<Rightarrow> Inr (1, [], [])
              | JSONRaised x \<Rightarrow> Inl x
              | JSONDecodeError \<Rightarrow>
                  Inr (0, [lit ''Response is not valid XML or JSON''],
                          [lit ''Ensure response follows proper XML or JSON format''])))
      else if check_nesting (criteria m) = Some True then
        and_then (re_findall lib (lit ''<('' @ bs @ lit ''w+)[^>]*>'') response) (\<lambda>open_tags.
        and_then (re_findall lib (lit ''</('' @ bs @ lit ''w+)>'') response) (\<lambda>close_tags.
          if length open_tags = length close_tags then Inr (1, [], [])
          else Inr (0, [lit ''XML tags are not properly balanced''],
                       [lit ''Check that all XML tags are properly closed''])))
      else Inr (1 / 2, [], []))"

definition section_indicators :: "str list" where
  "section_indicators =
     [lit ''<'' @ bs @ lit ''w+>'', bs @ lit ''d+'' @ bs @ lit ''.'', lit ''##'', lit ''###'']"

definition measure_count :: "pylib \<Rightarrow> str \<Rightarrow> metric \<Rightarrow> error + measured" where
  "measure_count lib response m =
     (case min_chars (criteria m) of
        Some t \<Rightarrow>
          (let char_count = length (strip response)
           in if int char_count \<ge> t then Inr (1, [], [])
              else Inr (real char_count / real_of_int t,
                        [lit ''Response too short: '' @ str_nat char_count
                           @ lit '' chars (minimum '' @ str_int t @ lit '')''],
                        [lit ''Provide more detailed analysis (at least '' @ str_int t
                           @ lit '' characters)'']))
      | None \<Rightarrow>
          (case min_sections (criteria m) of
             Some t \<Rightarrow>
               and_then (for_each (\<lambda>p. re_findall lib p response) section_indicators) (\<lambda>found.
                 let section_count = sum_list (map length found)
                 in if int section_count \<ge> t then Inr (1, [], [])
                    else Inr (real section_count / real_of_int t,
                              [lit ''Insufficient structure: '' @ str_nat section_count
                                 @ lit '' sections (minimum '' @ str_int t @ lit '')''],
                              [lit ''Organize response with at least '' @ str_int t
                                 @ lit '' clear sections'']))
           | None \<Rightarrow> Inr (1 / 2, [], [])))"

definition element_pattern :: str where
  \<comment> \<open>the pattern of an element with its content, the tag name repeated in the closing tag\<close>
  "element_pattern = lit ''<('' @ bs @ lit ''w+)[^>]*>(.*?)</'' @ bs @ lit ''1>''"

definition measure_ratio :: "pylib \<Rightarrow> str \<Rightarrow> metric \<Rightarrow> error + measured" where
  "measure_ratio lib response m =
     (case min_content_ratio (criteria m) of
        Some t \<Rightarrow>
          and_then (re_findall_dotall lib element_pattern response) (\<lambda>elements.
            if elements = [] then Inr (1 / 2, [], [])
            else
              (let non_empty_count =
                     length (filter (\<lambda>(tg, content). strip content \<noteq> []) elements);
                   total_count = length elements;
                   ratio = (if total_count > 0 then real non_empty_count / real total_count
                            else 0)
               in if ratio \<ge> t then Inr (1, [], [])
                  else Inr (ratio / t,
                            [lit ''Many empty elements: '' @ format_percent lib ratio
                               @ lit '' filled (minimum '' @ format_percent lib t @ lit '')''],
                            [lit ''Ensure all XML elements contain meaningful content''])))
      | None \<Rightarrow> Inr (1 / 2, [], []))"

definition tag_present :: "str \<Rightarrow> str \<Rightarrow> bool" where
  \<comment> \<open>\<open>f'<{tag}>' in response or f'<{tag} ' in response\<close>\<close>
  "tag_present response tg =
     (sublist (lit ''<'' @ tg @ lit ''>'') response \<or> sublist (lit ''<'' @ tg @ lit '' '') response)"

definition measure_presence :: "pylib \<Rightarrow> str \<Rightarrow> metric \<Rightarrow> measured" where
  \<comment> \<open>no call here raises\<close>
  "measure_presence lib response m =
     (case required_tags (criteria m) of
        Some tags \<Rightarrow>
          (let found_tags = filter (tag_present response) tags;
               missing_tags = filter (\<lambda>tg. \<not> tag_present response tg) tags;
               s = (if tags \<noteq> [] then real (length found_tags) / real (length tags) else 1)
           in if missing_tags \<noteq> []
              then (s, [lit ''Missing required elements: '' @ join (lit '', '') missing_tags],
                       [lit ''Include all required XML elements: ''
                          @ join (lit '', '') missing_tags])
              else (s, [], []))
      | None \<Rightarrow>
          (case required_values (criteria m) of
             Some vals \<Rightarrow>
               (let found_values = filter (\<lambda>v. sublist (lower lib v) (lower lib response)) vals
                in if found_values \<noteq> [] then (1, [], [])
                   else (0, [lit ''Missing required value from: '' @ join (lit '', '') vals],
                            [lit ''Include one of: '' @ join (lit '', '') vals]))
           | None \<Rightarrow> (1 / 2, [], [])))"

definition measure_pattern :: "pylib \<Rightarrow> str \<Rightarrow> metric \<Rightarrow> error + measured" where
  "measure_pattern lib response m =
     (case patterns (criteria m) of
        Some ps \<Rightarrow>
          and_then (for_each (\<lambda>p. re_search_ignorecase lib p response) ps) (\<lambda>found.
            let matches = length (filter (\<lambda>b. b) found);
                s = (if ps \<noteq> [] then real matches / real (length ps) else 1)
            in if s < threshold m
               then Inr (min s 1,
                         [lit ''Pattern matching below threshold: '' @ format_percent lib s],
                         [lit ''Include more specific references and details''])
               else Inr (min s 1, [], []))
      | None \<Rightarrow>
          (case blacklist (criteria m) of
             Some bl \<Rightarrow>
               and_then (for_each (\<lambda>p. re_search_ignorecase lib p response) bl) (\<lambda>found.
                 let violations = map fst (filter snd (zip bl found))
                 in if violations \<noteq> []
                    then Inr (0, [lit ''Prohibited content found: ''
                                    @ join (lit '', '') violations],
                                 [lit ''Remove prohibited content to ensure compliance''])
                    else Inr (1, [], []))
           | None \<Rightarrow> Inr (1 / 2, [], [])))"

definition evaluate_metric :: "pylib \<Rightarrow> str \<Rightarrow> metric \<Rightarrow> error + measured" where
  "evaluate_metric lib response m =
     (if measurement_type m = lit ''binary'' then measure_binary lib response m
      else if measurement_type m = lit ''count'' then measure_count lib response m
      else if measurement_type m = lit ''ratio'' then measure_ratio lib response m
      else if measurement_type m = lit ''presence'' then Inr (measure_presence lib response m)
      else if measurement_type m = lit ''pattern'' then measure_pattern lib response m
      else Inr (1 / 2, [lit ''Unknown measurement type: '' @ measurement_type m], []))"


subsection \<open>Aggregation\<close>

record analysis_result =
  overall_score :: real
  metric_scores :: "(str \<times> real) list"
  issues_found :: "str list"
  suggestions :: "str list"
  confidence_level :: real
  token_efficiency :: "(str \<times> int) list option"

text \<open>
  A dictionary is an association list in insertion order: \<open>d[k] = v\<close> is
  \<open>AList.update k v d\<close>, which overwrites in place or appends, and \<open>d[k]\<close> raises
  \<open>KeyError\<close> on a missing key. The time stamp of a result is left out.
\<close>

fun getitems :: "(str \<times> 'a) list \<Rightarrow> str list \<Rightarrow> error + 'a list" where
  \<comment> \<open>\<open>[d[k] for k in ks]\<close>\<close>
  "getitems d [] = Inr []"
| "getitems d (k # ks) =
     (case map_of d k of
        None \<Rightarrow> Inl (KeyError k)
      | Some v \<Rightarrow> (case getitems d ks of Inl e \<Rightarrow> Inl e | Inr vs \<Rightarrow> Inr (v # vs)))"

definition calculate_confidence ::
  "pylib \<Rightarrow> (str \<times> real) list \<Rightarrow> metric list \<Rightarrow> error + real" where
  "calculate_confidence lib scores metrics =
     (let high_weight_metrics = filter (\<lambda>m. weight m \<ge> 2 / 10) metrics
      in and_then (getitems scores (map name high_weight_metrics)) (\<lambda>high_weight_scores.
           if high_weight_scores = [] then
             (if length scores = 0 then Inl ZeroDivisionError
              else Inr (float_div lib (float_sum lib (map snd scores)) (real (length scores))))
           else Inr (float_div lib (float_sum lib high_weight_scores)
                       (real (length high_weight_scores)))))"

fun evaluate_metrics ::
  "pylib \<Rightarrow> str \<Rightarrow> metric list \<Rightarrow> (str \<times> real) list \<times> str list \<times> str list
     \<Rightarrow> error + ((str \<times> real) list \<times> str list \<times> str list)" where
  \<comment> \<open>the loop of \<open>analyze_response\<close> over the metrics, on the three accumulators\<close>
  "evaluate_metrics lib response [] acc = Inr acc"
| "evaluate_metrics lib response (m # ms) (scores, issues, suggs) =
     (case evaluate_metric lib response m of
        Inl e \<Rightarrow> Inl e
      | Inr (s, metric_issues, metric_suggestions) \<Rightarrow>
          evaluate_metrics lib response ms
            (AList.update (name m) s scores, issues @ metric_issues, suggs @ metric_suggestions))"

definition set_required_tags :: "str list \<Rightarrow> metric \<Rightarrow> metric" where
  "set_required_tags expected m =
     (if name m = lit ''required_elements''
      then m\<lparr>criteria := (criteria m)\<lparr>required_tags := Some expected\<rparr>\<rparr> else m)"

definition select_metrics ::
  "(str \<times> metric list) list \<Rightarrow> str \<Rightarrow> str list option \<Rightarrow> error + (str \<times> metric list)" where
  \<comment> \<open>the head of \<open>analyze_response\<close>: the framework after the fallback, and its metrics
      after the expected elements are written into \<open>required_elements\<close>\<close>
  "select_metrics quality_frameworks framework expected_elements =
     (let fw = (if map_of quality_frameworks framework = None then lit ''general_analysis''
                else framework)
      in case map_of quality_frameworks fw of
           None \<Rightarrow> Inl (KeyError fw)
         | Some registered \<Rightarrow>
             (case expected_elements of
                Some (e # es) \<Rightarrow>
                  if fw = lit ''structured_output''
                  then Inr (fw, map (set_required_tags (e # es)) registered)
                  else Inr (fw, registered)
              | _ \<Rightarrow> Inr (fw, registered)))"

definition analyze_response ::
  "pylib \<Rightarrow> (str \<times> metric list) list \<Rightarrow> str \<Rightarrow> str \<Rightarrow> str list option
     \<Rightarrow> (str \<times> int) list option
     \<Rightarrow> (str \<times> metric list) list \<times> (error + analysis_result)" where
  \<comment> \<open>Returns the registry as the call leaves it (the metrics of a framework are shared
      with the registry, so the expected elements stay written there) and the result
      or the exception.\<close>
  "analyze_response lib quality_frameworks response framework expected_elements token_usage =
     (case select_metrics quality_frameworks framework expected_elements of
        Inl e \<Rightarrow> (quality_frameworks, Inl e)
      | Inr (fw, metrics) \<Rightarrow>
          (AList.update fw metrics quality_frameworks,
           and_then (evaluate_metrics lib response metrics ([], [], [])) (\<lambda>(scores, issues, suggs).
           and_then (getitems scores (map name metrics)) (\<lambda>vals.
             let overall =
                   float_mul lib
                     (float_sum lib (map2 (\<lambda>v m. float_mul lib v (weight m)) vals metrics)) 100
             in and_then (calculate_confidence lib scores metrics) (\<lambda>confidence.
                  Inr \<lparr>overall_score = overall, metric_scores = scores,
                       issues_found = issues, suggestions = suggs,
                       confidence_level = confidence,
                       token_efficiency = token_usage\<rparr>)))))"

text \<open>Built-in metrics that the examples below use, as the source lists them.\<close>

definition reasoning_depth :: metric where
  "reasoning_depth = \<lparr>name = lit ''reasoning_depth'',
     description = lit ''Reasoning is detailed and comprehensive'',
     weight = 10 / 100, threshold = 100, measurement_type = lit ''count'',
     criteria = no_criteria\<lparr>min_chars := Some 200\<rparr>\<rparr>"

definition create_structured_metrics :: "metric list" where
  "create_structured_metrics =
     [\<lparr>name = lit ''valid_structure'', description = lit ''Output is valid XML or JSON'',
       weight = 40 / 100, threshold = 1, measurement_type = lit ''binary'',
       criteria = no_criteria\<lparr>validation_type := Some (lit ''xml_json'')\<rparr>\<rparr>,
      \<lparr>name = lit ''required_elements'',
       description = lit ''All required elements are present'',
       weight = 30 / 100, threshold = 9 / 10, measurement_type = lit ''count'',
       criteria = no_criteria\<lparr>required_tags := Some []\<rparr>\<rparr>,
      \<lparr>name = lit ''proper_nesting'',
       description = lit ''Elements are properly nested and organized'',
       weight = 15 / 100, threshold = 8 / 10, measurement_type = lit ''binary'',
       criteria = no_criteria\<lparr>check_nesting := Some True\<rparr>\<rparr>,
      \<lparr>name = lit ''content_completeness'',
       description = lit ''Elements contain meaningful content'',
       weight = 15 / 100, threshold = 7 / 10, measurement_type = lit ''ratio'',
       criteria = no_criteria\<lparr>min_content_ratio := Some (8 / 10)\<rparr>\<rparr>]"


section \<open>The XML validator\<close>

subsection \<open>Data\<close>

text \<open>
  \<open>ValidationRule.criteria\<close> is a string or a dictionary; the dictionary has an optional
  field for each key the validator reads. The fields \<open>rule_criteria\<close> and
  \<open>rule_description\<close> are the attributes \<open>criteria\<close> and \<open>description\<close> of a rule.
\<close>

record rule_dict =
  pattern :: "str option"
  min_length :: "int option"
  blacklisted :: "str list option"  \<comment> \<open>the key \<open>blacklist\<close>\<close>

datatype rule_criteria = Str str | Dict rule_dict

record validation_rule =
  element_path :: str
  rule_type :: str
  rule_criteria :: rule_criteria
  severity :: str
  rule_description :: str

record validation_result =
  is_valid :: bool
  errors :: "str list"
  warnings :: "str list"
  info :: "str list"
  score :: real
  element_count :: nat


subsection \<open>Paths\<close>

fun split :: "nat \<Rightarrow> str \<Rightarrow> str list" where
  \<comment> \<open>\<open>s.split(c)\<close> for a separator of one character\<close>
  "split c [] = [[]]"
| "split c (x # xs) =
     (if x = c then [] # split c xs
      else (case split c xs of [] \<Rightarrow> [[x]] | p # ps \<Rightarrow> (x # p) # ps))"

fun walk :: "pylib \<Rightarrow> element list \<Rightarrow> str list \<Rightarrow> error + element list" where
  \<comment> \<open>the loop of \<open>_find_elements\<close> over the parts of the path\<close>
  "walk lib current_elements [] = Inr current_elements"
| "walk lib current_elements (part # parts) =
     (if part = [] then walk lib current_elements parts
      else
        (case for_each (\<lambda>e. if part = lit ''*'' then Inr (children e) else findall lib e part)
                current_elements of
           Inl x \<Rightarrow> Inl x
         | Inr next_elements \<Rightarrow> walk lib (concat next_elements) parts))"

definition find_elements :: "pylib \<Rightarrow> element \<Rightarrow> str \<Rightarrow> error + element list" where
  "find_elements lib r path =
     (if path = lit ''*'' then Inr (iter r) else walk lib [r] (split 47 path))"


subsection \<open>Rules\<close>

definition blank :: "str option \<Rightarrow> bool" where
  \<comment> \<open>\<open>not elem.text or not elem.text.strip()\<close>\<close>
  "blank t = (case t of None \<Rightarrow> True | Some s \<Rightarrow> s = [] \<or> strip s = [])"

definition check_required :: "pylib \<Rightarrow> element \<Rightarrow> validation_rule \<Rightarrow> error + str list" where
  "check_required lib r rule =
     (if rule_criteria rule = Str (lit ''root_element'') then
        (if tag r \<noteq> element_path rule
         then Inr [lit ''Root element should be '' @ sq @ element_path rule @ sq
                     @ lit '', found '' @ sq @ tag r @ sq]
         else Inr [])
      else if rule_criteria rule = Str (lit ''non_empty'') then
        and_then (find_elements lib r (element_path rule)) (\<lambda>elements.
          if elements = []
          then Inr [lit ''Required element '' @ sq @ element_path rule @ sq @ lit '' is missing'']
          else Inr (map (\<lambda>e. lit ''Required element '' @ sq @ element_path rule @ sq
                                @ lit '' is empty'')
                      (filter (\<lambda>e. blank (elem_text e)) elements)))
      else if rule_criteria rule = Str (lit ''present'') then
        and_then (find_elements lib r (element_path rule)) (\<lambda>elements.
          if elements = []
          then Inr [lit ''Required element '' @ sq @ element_path rule @ sq @ lit '' is missing'']
          else Inr [])
      else Inr [])"

fun format_violations :: "pylib \<Rightarrow> str \<Rightarrow> str \<Rightarrow> element list \<Rightarrow> error + str list" where
  \<comment> \<open>the loop of \<open>_check_format\<close> over the elements: \<open>re.match\<close> is called on an element
      that has text, and a violation is appended when it finds no match\<close>
  "format_violations lib path pat [] = Inr []"
| "format_violations lib path pat (e # es) =
     (case elem_text e of
        None \<Rightarrow> format_violations lib path pat es
      | Some s \<Rightarrow>
          if s = [] then format_violations lib path pat es
          else
            (case re_match lib pat (strip s) of
               Inl x \<Rightarrow> Inl x
             | Inr matched \<Rightarrow>
                 (case format_violations lib path pat es of
                    Inl x \<Rightarrow> Inl x
                  | Inr vs \<Rightarrow>
                      if matched then Inr vs
                      else Inr ((lit ''Element '' @ sq @ path @ sq @ lit '' format invalid: ''
                                   @ sq @ strip s @ sq) # vs))))"

definition check_format :: "pylib \<Rightarrow> element \<Rightarrow> validation_rule \<Rightarrow> error + str list" where
  "check_format lib r rule =
     (case rule_criteria rule of
        Str c \<Rightarrow> Inr []
      | Dict d \<Rightarrow>
          (case pattern d of
             None \<Rightarrow> Inr []
           | Some pat \<Rightarrow>
               and_then (find_elements lib r (element_path rule))
                 (format_violations lib (element_path rule) pat)))"

fun content_violations :: "pylib \<Rightarrow> str \<Rightarrow> str \<Rightarrow> element list \<Rightarrow> error + str list" where
  \<comment> \<open>the loop of \<open>_check_content\<close> for the key \<open>pattern\<close>: \<open>re.search\<close> on the text as it is\<close>
  "content_violations lib path pat [] = Inr []"
| "content_violations lib path pat (e # es) =
     (case elem_text e of
        None \<Rightarrow> content_violations lib path pat es
      | Some s \<Rightarrow>
          if s = [] then content_violations lib path pat es
          else
            (case re_search lib pat s of
               Inl x \<Rightarrow> Inl x
             | Inr found \<Rightarrow>
                 (case content_violations lib path pat es of
                    Inl x \<Rightarrow> Inl x
                  | Inr vs \<Rightarrow>
                      if found then Inr vs
                      else Inr ((lit ''Element '' @ sq @ path @ sq @ lit '' content doesn''
                                   @ sq @ lit ''t match pattern'') # vs))))"

definition check_content ::
  "pylib \<Rightarrow> element \<Rightarrow> validation_rule \<Rightarrow> str \<Rightarrow> error + str list" where
  "check_content lib r rule xml_content =
     (case rule_criteria rule of
        Str c \<Rightarrow> Inr []
      | Dict d \<Rightarrow>
          and_then
            (case pattern d of
               None \<Rightarrow> Inr []
             | Some pat \<Rightarrow>
                 and_then (find_elements lib r (element_path rule))
                   (content_violations lib (element_path rule) pat))
            (\<lambda>unmatched.
          and_then
            (case min_length d of
               None \<Rightarrow> Inr []
             | Some n \<Rightarrow>
                 and_then (find_elements lib r (element_path rule)) (\<lambda>elements.
                   Inr (map (\<lambda>e. lit ''Element '' @ sq @ element_path rule @ sq
                                   @ lit '' content too short (minimum '' @ str_int n
                                   @ lit '' characters)'')
                          (filter (\<lambda>e. case elem_text e of
                                          None \<Rightarrow> True
                                        | Some s \<Rightarrow> s = [] \<or> int (length (strip s)) < n)
                             elements))))
            (\<lambda>short.
          Inr (unmatched @ short
               @ (case blacklisted d of
                    None \<Rightarrow> []
                  | Some banned_terms \<Rightarrow>
                      map (\<lambda>banned. lit ''Prohibited content found: '' @ sq @ banned @ sq)
                        (filter (\<lambda>banned. sublist (lower lib banned) (lower lib xml_content))
                           banned_terms))))))"

definition check_attribute :: "element \<Rightarrow> validation_rule \<Rightarrow> str list" where
  "check_attribute r rule = []"

definition apply_rule :: "pylib \<Rightarrow> element \<Rightarrow> validation_rule \<Rightarrow> str \<Rightarrow> error + str list" where
  \<comment> \<open>the list under the key \<open>violations\<close>\<close>
  "apply_rule lib r rule xml_content =
     (if rule_type rule = lit ''required'' then check_required lib r rule
      else if rule_type rule = lit ''format'' then check_format lib r rule
      else if rule_type rule = lit ''content'' then check_content lib r rule xml_content
      else if rule_type rule = lit ''attribute'' then Inr (check_attribute r rule)
      else Inr [])"

fun apply_rules ::
  "pylib \<Rightarrow> element \<Rightarrow> str \<Rightarrow> validation_rule list \<Rightarrow> str list \<times> str list \<times> str list
     \<Rightarrow> error + (str list \<times> str list \<times> str list)" where
  \<comment> \<open>the loop of \<open>validate_xml\<close> over the rules, on \<open>errors\<close>, \<open>warnings\<close>, \<open>info\<close>\<close>
  "apply_rules lib r xml_content [] acc = Inr acc"
| "apply_rules lib r xml_content (rule # rules) (errs, warns, infos) =
     (case apply_rule lib r rule xml_content of
        Inl x \<Rightarrow> Inl x
      | Inr violations \<Rightarrow>
          apply_rules lib r xml_content rules
            (if violations \<noteq> [] then
               (if severity rule = lit ''error'' then (errs @ violations, warns, infos)
                else if severity rule = lit ''warning'' then (errs, warns @ violations, infos)
                else (errs, warns, infos @ violations))
             else (errs, warns, infos)))"

definition select_rules ::
  "(str \<times> validation_rule list) list \<Rightarrow> (str \<times> validation_rule list) list \<Rightarrow> str
     \<Rightarrow> error + (validation_rule list \<times> str list)" where
  \<comment> \<open>the lookup of the rules in \<open>validate_xml\<close>, with the warning of the fallback;
      \<open>schemas\<close> and \<open>custom_schemas\<close> are the two registries of the validator\<close>
  "select_rules schemas custom_schemas schema_name =
     (case map_of schemas schema_name of
        Some rules \<Rightarrow> Inr (rules, [])
      | None \<Rightarrow>
          (case map_of custom_schemas schema_name of
             Some rules \<Rightarrow> Inr (rules, [])
           | None \<Rightarrow>
               (case map_of schemas (lit ''general_analysis'') of
                  None \<Rightarrow> Inl (KeyError (lit ''general_analysis''))
                | Some rules \<Rightarrow>
                    Inr (rules, [lit ''Schema '' @ sq @ schema_name @ sq
                                   @ lit '' not found, using general validation'']))))"

definition validate_xml ::
  "pylib \<Rightarrow> (str \<times> validation_rule list) list \<Rightarrow> (str \<times> validation_rule list) list
     \<Rightarrow> str \<Rightarrow> str \<Rightarrow> error + validation_result" where
  "validate_xml lib schemas custom_schemas xml_content schema_name =
     (case fromstring lib xml_content of
        ParseError e \<Rightarrow>
          Inr \<lparr>is_valid = False, errors = [lit ''Invalid XML: '' @ e], warnings = [],
               info = [], score = 0, element_count = 0\<rparr>
      | ParseRaised x \<Rightarrow> Inl x
      | Parsed r \<Rightarrow>
          and_then (select_rules schemas custom_schemas schema_name) (\<lambda>(rules, warns0).
          and_then (apply_rules lib r xml_content rules ([], warns0, [])) (\<lambda>(errs, warns, infos).
            let total_rules = length (filter (\<lambda>rule. severity rule = lit ''error'') rules);
                error_count = length errs;
                sc = (if total_rules > 0
                      then max 0 ((real total_rules - real error_count)
                                    / real total_rules * 100)
                      else 100)
            in Inr \<lparr>is_valid = (length errs = 0), errors = errs, warnings = warns,
                    info = infos, score = sc, element_count = length (iter r)\<rparr>)))"

definition create_general_schema :: "validation_rule list" where
  "create_general_schema =
     [\<lparr>element_path = lit ''*'', rule_type = lit ''format'',
       rule_criteria = Str (lit ''well_formed_xml''), severity = lit ''error'',
       rule_description = lit ''Must be well-formed XML''\<rparr>,
      \<lparr>element_path = lit ''*/confidence'', rule_type = lit ''format'',
       rule_criteria = Dict \<lparr>pattern = Some (lit ''^'' @ bs @ lit ''d{1,3}%?$''),
                               min_length = None, blacklisted = None\<rparr>,
       severity = lit ''warning'',
       rule_description = lit ''Confidence values should be percentages''\<rparr>]"


section \<open>A library for the examples\<close>

text \<open>
  The theorems below hold for every behaviour of the libraries. To run the definitions
  on a concrete input, \<open>example_lib\<close> answers as the libraries do on the inputs of the
  examples, and only there:
  \<^item> the parser on the documents of \<open>known_documents\<close> (a mismatched tag, a small
    well-formed document, a document with the lone surrogate \<open>0xD800\<close>, which the parser
    cannot encode) and on texts without markup, which it rejects at the first character;
  \<^item> \<open>json.loads\<close> on a number written with the digits 1 to 9, which it loads up to
    4300 digits and refuses beyond with a \<open>ValueError\<close>, and on texts that are not JSON;
  \<^item> \<open>findall\<close> on a path that is a plain tag name: the children with that tag;
  \<^item> \<open>re\<close> on patterns without special characters, which match as plain substrings
    (prefixes for \<open>re.match\<close>), on texts in which the tag and section patterns of the
    analyzer find nothing, and the element pattern on the texts of \<open>known_elements\<close>
    (in \<^verbatim>\<open><ab>x</a>\<close> it matches an element named \<open>a\<close>: the tag name gives its
    \<open>b\<close> back to the part of the pattern that runs up to the closing bracket);
  \<^item> \<open>lower\<close> on ASCII letters;
  \<^item> the float arithmetic on numbers whose sums and products are floats themselves, so
    that no operation rounds.
\<close>

definition example_root :: element where
  "example_root = Element (lit ''r'') None [Element (lit ''c'') (Some (lit ''12abc'')) []]"

definition known_documents :: "(str \<times> parse_outcome) list" where
  "known_documents =
     [(lit ''<a><b></a>'', ParseError (lit ''mismatched tag: line 1, column 8'')),
      (lit ''<r><c>12abc</c></r>'', Parsed example_root),
      (lit ''<a>'' @ [0xD800] @ lit ''</a>'', ParseRaised (Raised ''UnicodeEncodeError''))]"

definition known_elements :: "(str \<times> (str \<times> str) list) list" where
  "known_elements = [(lit ''<ab>x</a>'', [(lit ''a'', lit ''x'')])]"

definition ascii_lower :: "str \<Rightarrow> str" where
  "ascii_lower s = map (\<lambda>n. if 65 \<le> n \<and> n \<le> 90 then n + 32 else n) s"

definition example_lib :: pylib where
  "example_lib =
     \<lparr>fromstring = (\<lambda>s. case map_of known_documents s of
                          Some x \<Rightarrow> x
                        | None \<Rightarrow> ParseError (lit ''syntax error: line 1, column 0'')),
      json_loads = (\<lambda>s. if s \<noteq> [] \<and> list_all (\<lambda>n. 49 \<le> n \<and> n \<le> 57) s
                         then (if length s > 4300 then JSONRaised (Raised ''ValueError'')
                               else Loaded)
                         else JSONDecodeError),
      findall = (\<lambda>e part. Inr (filter (\<lambda>c. tag c = part) (children e))),
      re_match = (\<lambda>p s. Inr (prefix p s)),
      re_search = (\<lambda>p s. Inr (sublist p s)),
      re_search_ignorecase = (\<lambda>p s. Inr (sublist (ascii_lower p) (ascii_lower s))),
      re_findall = (\<lambda>p s. Inr []),
      re_findall_dotall = (\<lambda>p s. Inr (case map_of known_elements s of
                                         Some x \<Rightarrow> x | None \<Rightarrow> [])),
      lower = ascii_lower,
      format_percent = (\<lambda>x. lit ''?%''),
      float_sum = sum_list,
      float_mul = (\<lambda>x y. x * y),
      float_div = (\<lambda>x y. x / y)\<rparr>"

text \<open>
  Metrics and registries of the examples: the presence metric with the two tags \<open>x\<close>
  and \<open>y\<close>; two metrics of weight 0.75 each; the two metrics of the confidence example
  (on a text of nine characters, \<open>A\<close> of weight 0.3 scores 0.9 and \<open>B\<close> of weight 0.1
  scores 0.2); a metric of weight 0.25 that asks for 200 characters; and a registry
  with a general framework and the built-in framework for structured output.
\<close>

definition xy_metric :: metric where
  "xy_metric = \<lparr>name = lit ''structured_format'',
     description = lit ''Response follows required XML structure'',
     weight = 20 / 100, threshold = 8 / 10, measurement_type = lit ''presence'',
     criteria = no_criteria\<lparr>required_tags := Some [lit ''x'', lit ''y'']\<rparr>\<rparr>"

definition heavy_metrics :: "metric list" where
  "heavy_metrics =
     [\<lparr>name = lit ''x_present'', description = lit ''The element x is opened'',
       weight = 3 / 4, threshold = 1, measurement_type = lit ''presence'',
       criteria = no_criteria\<lparr>required_tags := Some [lit ''x'']\<rparr>\<rparr>,
      \<lparr>name = lit ''y_present'', description = lit ''The element y is opened'',
       weight = 3 / 4, threshold = 1, measurement_type = lit ''presence'',
       criteria = no_criteria\<lparr>required_tags := Some [lit ''y'']\<rparr>\<rparr>]"

definition ab_metrics :: "metric list" where
  "ab_metrics =
     [\<lparr>name = lit ''A'', description = lit ''At least 10 characters'', weight = 3 / 10,
       threshold = 1, measurement_type = lit ''count'',
       criteria = no_criteria\<lparr>min_chars := Some 10\<rparr>\<rparr>,
      \<lparr>name = lit ''B'', description = lit ''At least 45 characters'', weight = 1 / 10,
       threshold = 1, measurement_type = lit ''count'',
       criteria = no_criteria\<lparr>min_chars := Some 45\<rparr>\<rparr>]"

definition length_metric :: metric where
  "length_metric = \<lparr>name = lit ''length'', description = lit ''At least 200 characters'',
     weight = 1 / 4, threshold = 1, measurement_type = lit ''count'',
     criteria = no_criteria\<lparr>min_chars := Some 200\<rparr>\<rparr>"

definition example_frameworks :: "(str \<times> metric list) list" where
  "example_frameworks =
     [(lit ''general_analysis'', [length_metric]),
      (lit ''structured_output'', create_structured_metrics)]"

text \<open>
  Schemas of the examples: a registry of built-in schemas with the general schema, and
  a schema with two rules of severity \<open>error\<close> and a format rule.
\<close>

definition builtin_schemas :: "(str \<times> validation_rule list) list" where
  "builtin_schemas = [(lit ''general_analysis'', create_general_schema)]"

definition example_schema :: "validation_rule list" where
  "example_schema =
     [\<lparr>element_path = lit ''r'', rule_type = lit ''required'',
       rule_criteria = Str (lit ''root_element''), severity = lit ''error'',
       rule_description = lit ''Root element must be r''\<rparr>,
      \<lparr>element_path = lit ''summary'', rule_type = lit ''required'',
       rule_criteria = Str (lit ''non_empty''), severity = lit ''error'',
       rule_description = lit ''Summary is required''\<rparr>,
      \<lparr>element_path = lit ''c'', rule_type = lit ''format'',
       rule_criteria = Dict \<lparr>pattern = Some (lit ''12''), min_length = None,
                               blacklisted = None\<rparr>,
       severity = lit ''warning'', rule_description = lit ''The code starts with 12''\<rparr>]"


section \<open>Properties of the analyzer\<close>

subsection \<open>Strings and exceptions\<close>

lemma and_then_Inr [simp]: "and_then (Inr x) f = f x"
  by (simp add: and_then_def)

lemma and_then_Inl [simp]: "and_then (Inl e) f = Inl e"
  by (simp add: and_then_def)

lemma dropWhile_none: "\<forall>c\<in>set s. \<not> P c \<Longrightarrow> dropWhile P s = s"
  by (cases s) auto

lemma strip_no_space: "\<forall>c\<in>set s. \<not> is_space c \<Longrightarrow> strip s = s"
  by (simp add: strip_def dropWhile_none)

lemma strip_blanks: "strip (replicate n 32) = []"
  by (simp add: strip_def is_space_def)

lemma strip_xs: "strip (replicate n 120) = replicate n 120"
  by (rule strip_no_space) (simp add: is_space_def)

lemma sublist_in_append: "sublist t ys \<Longrightarrow> sublist t (zs @ ys)"
  by (simp add: sublist_append)

lemma in_set_nonempty: "x \<in> set xs \<Longrightarrow> xs \<noteq> []"
  by auto

lemma sublist_join: "t \<in> set xs \<Longrightarrow> sublist t (join sep xs)"
proof (induction sep xs rule: join.induct)
  case (1 sep)
  then show ?case by simp
next
  case (2 sep x)
  then show ?case by simp
next
  case (3 sep x y ys)
  show ?case
  proof (cases "t = x")
    case True
    then show ?thesis by (simp add: sublist_append_rightI)
  next
    case False
    with 3 have "sublist t (join sep (y # ys))" by simp
    then have "sublist t ((x @ sep) @ join sep (y # ys))" by (rule sublist_in_append)
    then show ?thesis by simp
  qed
qed

text \<open>
  C7. For a metric whose measurement type is none of \<open>binary\<close>, \<open>count\<close>, \<open>ratio\<close>,
  \<open>presence\<close> and \<open>pattern\<close>, and for every text and every behaviour of the libraries,
  the evaluation returns (it does not raise: no library is called) the neutral score
  0.5 with the one issue \<open>Unknown measurement type: \<close> followed by the type, and no
  suggestion.
\<close>

theorem unknown_measurement_type:
  assumes "measurement_type m
             \<notin> {lit ''binary'', lit ''count'', lit ''ratio'', lit ''presence'', lit ''pattern''}"
  shows "evaluate_metric lib response m
           = Inr (1 / 2, [lit ''Unknown measurement type: '' @ measurement_type m], [])"
  using assms by (simp add: evaluate_metric_def)

theorem unknown_measurement_type_witness:
  "evaluate_metric example_lib (lit ''some text'')
     (reasoning_depth\<lparr>measurement_type := lit ''length''\<rparr>)
     = Inr (1 / 2, [lit ''Unknown measurement type: length''], [])"
proof -
  have "measurement_type (reasoning_depth\<lparr>measurement_type := lit ''length''\<rparr>)
          \<notin> {lit ''binary'', lit ''count'', lit ''ratio'', lit ''presence'', lit ''pattern''}"
    by (simp add: lit_def)
  from unknown_measurement_type [OF this, of example_lib "lit ''some text''"]
  show ?thesis by (simp add: lit_def)
qed

lemma too_short_message:
  "lit ''Response too short: '' @ str_nat 0 @ lit '' chars (minimum '' @ str_int 200 @ lit '')''
     = lit ''Response too short: 0 chars (minimum 200)''"
  by code_simp

lemma more_detail_message:
  "lit ''Provide more detailed analysis (at least '' @ str_int 200 @ lit '' characters)''
     = lit ''Provide more detailed analysis (at least 200 characters)''"
  by code_simp

text \<open>
  C8, as stated, counts the characters of the text. The analyzer counts the characters
  left after white space is stripped at both ends: a response of 50 blanks scores 0
  against \<open>min_chars = 200\<close>, not \<open>50 / 200\<close>.
\<close>

theorem min_chars_score_counterexample:
  "length (replicate 50 (32::nat)) = 50
   \<and> evaluate_metric example_lib (replicate 50 32) reasoning_depth
       = Inr (0, [lit ''Response too short: 0 chars (minimum 200)''],
                 [lit ''Provide more detailed analysis (at least 200 characters)''])
   \<and> (0::real) \<noteq> 50 / 200"
proof -
  have "evaluate_metric example_lib (replicate 50 32) reasoning_depth
          = measure_count example_lib (replicate 50 32) reasoning_depth"
    by (simp add: evaluate_metric_def reasoning_depth_def lit_def)
  also have "\<dots> = Inr (0, [lit ''Response too short: '' @ str_nat 0 @ lit '' chars (minimum ''
                                @ str_int 200 @ lit '')''],
                             [lit ''Provide more detailed analysis (at least '' @ str_int 200
                                @ lit '' characters)''])"
    by (simp add: measure_count_def reasoning_depth_def no_criteria_def strip_blanks
          del: str_nat.simps)
  finally show ?thesis by (simp only: too_short_message more_detail_message) simp
qed

text \<open>
  C8, amended. For a count metric with a \<open>min_chars\<close> criterion \<open>t > 0\<close> and every text,
  with the character count taken after stripping: the evaluation returns the score
  \<open>min 1 (count / t)\<close>, and it emits an issue exactly when the count is below \<open>t\<close>; a
  text of which 50 characters are left scores \<open>1/4\<close> against 200.
\<close>

theorem min_chars_score:
  assumes "measurement_type m = lit ''count''" and "min_chars (criteria m) = Some t"
    and "0 < t"
  shows "\<exists>issues suggs.
           evaluate_metric lib response m
             = Inr (min 1 (real (length (strip response)) / real_of_int t), issues, suggs)
           \<and> (issues \<noteq> []) = (int (length (strip response)) < t)
           \<and> (length (strip response) = 50 \<and> t = 200
                \<longrightarrow> evaluate_metric lib response m = Inr (1 / 4, issues, suggs))"
proof -
  have ev: "evaluate_metric lib response m = measure_count lib response m"
    using assms(1) by (simp add: evaluate_metric_def lit_def)
  show ?thesis
  proof (cases "int (length (strip response)) \<ge> t")
    case True
    then have "real_of_int t \<le> real (length (strip response))" by linarith
    then have "min 1 (real (length (strip response)) / real_of_int t) = 1"
      using assms(3) by (simp add: min_def divide_simps)
    with True assms show ?thesis
      by (simp add: ev measure_count_def Let_def)
  next
    case False
    then have lt: "real (length (strip response)) < real_of_int t" by linarith
    then have m: "min 1 (real (length (strip response)) / real_of_int t)
                    = real (length (strip response)) / real_of_int t"
      using assms(3) by (simp add: min_def divide_simps)
    from False assms show ?thesis
      by (simp add: ev measure_count_def Let_def m del: str_nat.simps)
  qed
qed

theorem min_chars_score_witness:
  "measurement_type reasoning_depth = lit ''count''
   \<and> min_chars (criteria reasoning_depth) = Some 200
   \<and> length (strip (replicate 50 120)) = 50
   \<and> (\<exists>issues suggs. evaluate_metric example_lib (replicate 50 120) reasoning_depth
                         = Inr (1 / 4, issues, suggs) \<and> issues \<noteq> [])"
proof -
  have t: "measurement_type reasoning_depth = lit ''count''"
    "min_chars (criteria reasoning_depth) = Some 200"
    by (simp_all add: reasoning_depth_def no_criteria_def)
  have l: "length (strip (replicate 50 120)) = 50" by (simp add: strip_xs)
  from min_chars_score [OF t, of example_lib "replicate 50 120"] l
  have "\<exists>issues suggs. evaluate_metric example_lib (replicate 50 120) reasoning_depth
                         = Inr (1 / 4, issues, suggs) \<and> issues \<noteq> []"
    by auto
  with t l show ?thesis by blast
qed

text \<open>
  C9. For a presence metric with a non-empty list \<open>required_tags\<close> and every text, the
  evaluation returns: the score is the fraction of the listed tags \<open>t\<close> for which \<open><t>\<close>
  or \<open><t\<close> followed by a blank occurs in the text (compared code point by code point,
  so case-sensitively); every listed tag found neither way occurs in an emitted issue,
  and the issue list is empty when no tag is missing and otherwise the one issue that
  lists the missing tags. The witness is the example of the tags \<open>x\<close>, \<open>y\<close> and the text
  \<open><x>\<close>: score 1/2, and the issue names \<open>y\<close>.
\<close>

theorem required_tags_presence:
  assumes "measurement_type m = lit ''presence''" and "required_tags (criteria m) = Some tags"
    and "tags \<noteq> []"
  shows "\<exists>issues suggs.
           evaluate_metric lib response m
             = Inr (real (length (filter (\<lambda>t. sublist (lit ''<'' @ t @ lit ''>'') response
                                              \<or> sublist (lit ''<'' @ t @ lit '' '') response) tags))
                      / real (length tags), issues, suggs)
           \<and> (\<forall>t\<in>set tags.
                 \<not> (sublist (lit ''<'' @ t @ lit ''>'') response
                     \<or> sublist (lit ''<'' @ t @ lit '' '') response)
                 \<longrightarrow> (\<exists>issue\<in>set issues. sublist t issue))
           \<and> issues
               = (let missing = filter (\<lambda>t. \<not> (sublist (lit ''<'' @ t @ lit ''>'') response
                                                 \<or> sublist (lit ''<'' @ t @ lit '' '') response)) tags
                  in if missing = [] then []
                     else [lit ''Missing required elements: '' @ join (lit '', '') missing])"
proof -
  let ?present = "\<lambda>t. sublist (lit ''<'' @ t @ lit ''>'') response
                       \<or> sublist (lit ''<'' @ t @ lit '' '') response"
  let ?missing = "filter (\<lambda>t. \<not> ?present t) tags"
  let ?issues = "if ?missing = [] then []
                 else [lit ''Missing required elements: '' @ join (lit '', '') ?missing]"
  have tp: "tag_present response = ?present"
    by (rule ext) (simp add: tag_present_def)
  have ev: "evaluate_metric lib response m = Inr (measure_presence lib response m)"
    using assms(1) by (simp add: evaluate_metric_def lit_def)
  have "\<exists>suggs. measure_presence lib response m
          = (real (length (filter ?present tags)) / real (length tags), ?issues, suggs)"
    using assms(2,3) by (simp add: measure_presence_def Let_def tp)
  then obtain suggs where
    mp: "evaluate_metric lib response m
           = Inr (real (length (filter ?present tags)) / real (length tags), ?issues, suggs)"
    unfolding ev by blast
  have listed: "\<exists>issue\<in>set ?issues. sublist t issue"
    if "t \<in> set tags" and "\<not> ?present t" for t
  proof -
    from that have mem: "t \<in> set ?missing" by simp
    then have ne: "?missing \<noteq> []" by (rule in_set_nonempty)
    from mem have "sublist t (join (lit '', '') ?missing)" by (rule sublist_join)
    then have "sublist t (lit ''Missing required elements: '' @ join (lit '', '') ?missing)"
      by (rule sublist_in_append)
    with ne show ?thesis by simp
  qed
  have c2: "\<forall>t\<in>set tags. \<not> ?present t \<longrightarrow> (\<exists>issue\<in>set ?issues. sublist t issue)"
    using listed by blast
  have c3: "?issues = (let missing = ?missing
                       in if missing = [] then []
                          else [lit ''Missing required elements: '' @ join (lit '', '') missing])"
    unfolding Let_def by (rule refl)
  from mp c2 c3 show ?thesis by blast
qed

lemma x_in_x: "sublist (lit ''<x>'') (lit ''<x>'')" by code_simp
lemma y_not_in_x: "\<not> sublist (lit ''<y>'') (lit ''<x>'')" by code_simp
lemma y_blank_not_in_x: "\<not> sublist (lit ''<y '') (lit ''<x>'')" by code_simp
lemma x_blank_not_in_x: "\<not> sublist (lit ''<x '') (lit ''<x>'')" by code_simp

theorem required_tags_presence_witness:
  "\<exists>suggs. evaluate_metric example_lib (lit ''<x>'') xy_metric
             = Inr (1 / 2, [lit ''Missing required elements: y''], suggs)"
proof -
  have a: "lit ''<'' @ lit ''x'' @ lit ''>'' = lit ''<x>''" "lit ''<'' @ lit ''y'' @ lit ''>'' = lit ''<y>''"
    "lit ''<'' @ lit ''x'' @ lit '' '' = lit ''<x ''" "lit ''<'' @ lit ''y'' @ lit '' '' = lit ''<y ''"
    "lit ''Missing required elements: '' @ lit ''y'' = lit ''Missing required elements: y''"
    by (simp_all add: lit_def)
  have t: "measurement_type xy_metric = lit ''presence''"
    "required_tags (criteria xy_metric) = Some [lit ''x'', lit ''y'']"
    by (simp_all add: xy_metric_def no_criteria_def)
  from required_tags_presence [OF t, of example_lib "lit ''<x>''"]
  show ?thesis
    by (simp add: a x_in_x y_not_in_x y_blank_not_in_x x_blank_not_in_x)
qed






subsection \<open>Scores lie between 0 and 1\<close>

declare str_nat.simps [simp del]

lemma quotient_range: "0 \<le> (x::real) \<Longrightarrow> x < t \<Longrightarrow> 0 \<le> x / t \<and> x / t \<le> 1"
  by (simp add: divide_simps)

lemma measure_binary_range: "measure_binary lib r m = Inr (s, i, u) \<Longrightarrow> 0 \<le> s \<and> s \<le> 1"
  by (auto simp: measure_binary_def and_then_def
      split: if_splits parse_outcome.splits json_outcome.splits sum.splits)

lemma count_quotient:
  "\<not> t \<le> int c \<Longrightarrow> 0 \<le> real c / real_of_int t \<and> real c / real_of_int t \<le> 1"
  by (rule quotient_range) simp_all

lemma fraction_range:
  "0 \<le> real (length (filter P xs)) / real (length xs)
   \<and> real (length (filter P xs)) / real (length xs) \<le> 1"
proof (cases "xs = []")
  case True
  then show ?thesis by simp
next
  case False
  have "length (filter P xs) \<le> length xs" by (rule length_filter_le)
  then have "real (length (filter P xs)) \<le> real (length xs)" by simp
  with False show ?thesis by (simp add: divide_simps)
qed

lemma measure_count_range:
  assumes "measure_count lib r m = Inr (s, i, u)"
  shows "0 \<le> s \<and> s \<le> 1"
proof (cases "min_chars (criteria m)")
  case (Some t)
  show ?thesis
  proof (cases "t \<le> int (length (strip r))")
    case True
    with assms Some show ?thesis by (simp add: measure_count_def Let_def)
  next
    case False
    with assms Some have "s = real (length (strip r)) / real_of_int t"
      by (simp add: measure_count_def Let_def)
    with count_quotient [OF False] show ?thesis by simp
  qed
next
  case None
  show ?thesis
  proof (cases "min_sections (criteria m)")
    case n: None
    with assms None show ?thesis by (simp add: measure_count_def)
  next
    case (Some t)
    show ?thesis
    proof (cases "for_each (\<lambda>p. re_findall lib p r) section_indicators")
      case (Inl e)
      with assms None Some show ?thesis by (simp add: measure_count_def)
    next
      case (Inr found)
      show ?thesis
      proof (cases "t \<le> int (sum_list (map length found))")
        case True
        with assms None Some Inr show ?thesis by (simp add: measure_count_def Let_def)
      next
        case False
        with assms None Some Inr
        have "s = real (sum_list (map length found)) / real_of_int t"
          by (simp add: measure_count_def Let_def)
        with count_quotient [OF False] show ?thesis by simp
      qed
    qed
  qed
qed

lemma measure_ratio_range:
  assumes "measure_ratio lib r m = Inr (s, i, u)"
  shows "0 \<le> s \<and> s \<le> 1"
proof (cases "min_content_ratio (criteria m)")
  case None
  with assms show ?thesis by (simp add: measure_ratio_def)
next
  case (Some t)
  show ?thesis
  proof (cases "re_findall_dotall lib element_pattern r")
    case (Inl e)
    with assms Some show ?thesis by (simp add: measure_ratio_def)
  next
    case (Inr els)
    let ?ratio = "real (length (filter (\<lambda>(tg, content). strip content \<noteq> []) els))
                    / real (length els)"
    show ?thesis
    proof (cases "els = []")
      case True
      with assms Some Inr show ?thesis by (simp add: measure_ratio_def)
    next
      case False
      have nonneg: "0 \<le> ?ratio" by simp
      show ?thesis
      proof (cases "t \<le> ?ratio")
        case True
        with assms Some Inr False show ?thesis by (simp add: measure_ratio_def Let_def)
      next
        case lt: False
        then have "?ratio < t" by simp
        with nonneg have "0 \<le> ?ratio / t \<and> ?ratio / t \<le> 1" by (rule quotient_range)
        with assms Some Inr False lt show ?thesis by (simp add: measure_ratio_def Let_def)
      qed
    qed
  qed
qed

lemma measure_presence_range:
  assumes "measure_presence lib r m = (s, i, u)"
  shows "0 \<le> s \<and> s \<le> 1"
proof (cases "required_tags (criteria m)")
  case (Some tags)
  with assms
  have "s = (if tags \<noteq> []
             then real (length (filter (tag_present r) tags)) / real (length tags) else 1)"
    by (simp add: measure_presence_def Let_def split: if_splits)
  with fraction_range [of "tag_present r" tags] show ?thesis by (simp split: if_splits)
next
  case None
  with assms show ?thesis
    by (auto simp: measure_presence_def Let_def split: option.splits if_splits)
qed

lemma measure_pattern_range:
  assumes "measure_pattern lib r m = Inr (s, i, u)"
  shows "0 \<le> s \<and> s \<le> 1"
proof (cases "patterns (criteria m)")
  case (Some ps)
  show ?thesis
  proof (cases "for_each (\<lambda>p. re_search_ignorecase lib p r) ps")
    case (Inl e)
    with assms Some show ?thesis by (simp add: measure_pattern_def)
  next
    case (Inr found)
    let ?q = "if ps \<noteq> [] then real (length (filter (\<lambda>b. b) found)) / real (length ps) else 1"
    from assms Some Inr have "s = min ?q 1"
      by (simp add: measure_pattern_def Let_def split: if_splits)
    moreover have "0 \<le> ?q" by simp
    ultimately show ?thesis by (simp add: min_def)
  qed
next
  case None
  with assms show ?thesis
    by (auto simp: measure_pattern_def Let_def and_then_def split: option.splits if_splits sum.splits)
qed

lemma evaluate_metric_range:
  "evaluate_metric lib r m = Inr (s, i, u) \<Longrightarrow> 0 \<le> s \<and> s \<le> 1"
  using measure_binary_range measure_count_range measure_ratio_range measure_presence_range
    measure_pattern_range
  by (auto simp: evaluate_metric_def split: if_splits)

lemma evaluate_metrics_returns:
  "\<forall>m\<in>set ms. \<exists>v. evaluate_metric lib r m = Inr v \<Longrightarrow>
   evaluate_metrics lib r ms (scores, issues, suggs)
     = Inr (fold (\<lambda>m. AList.update (name m) (fst (projr (evaluate_metric lib r m)))) ms scores,
            issues @ concat (map (\<lambda>m. fst (snd (projr (evaluate_metric lib r m)))) ms),
            suggs @ concat (map (\<lambda>m. snd (snd (projr (evaluate_metric lib r m)))) ms))"
proof (induction ms arbitrary: scores issues suggs)
  case Nil
  then show ?case by simp
next
  case (Cons m ms)
  then obtain s i u where e: "evaluate_metric lib r m = Inr (s, i, u)" by fastforce
  from Cons.prems have "\<forall>m\<in>set ms. \<exists>v. evaluate_metric lib r m = Inr v" by simp
  from Cons.IH [OF this] show ?case by (simp add: e)
qed

lemma evaluate_metrics_Inr:
  "evaluate_metrics lib r ms acc = Inr out \<Longrightarrow> \<forall>m\<in>set ms. \<exists>v. evaluate_metric lib r m = Inr v"
proof (induction ms arbitrary: acc)
  case Nil
  then show ?case by simp
next
  case (Cons m ms)
  obtain scores issues suggs where acc: "acc = (scores, issues, suggs)" by (cases acc)
  show ?case
  proof (cases "evaluate_metric lib r m")
    case (Inl e)
    with Cons.prems acc show ?thesis by simp
  next
    case (Inr v)
    obtain s i u where v: "v = (s, i, u)" by (cases v)
    from Cons.prems acc Inr v
    have "evaluate_metrics lib r ms (AList.update (name m) s scores, issues @ i, suggs @ u) = Inr out"
      by simp
    from Cons.IH [OF this] Inr v show ?thesis by auto
  qed
qed

lemma update_member:
  "(k', v') \<in> set (AList.update k v al) \<Longrightarrow> (k', v') \<in> set al \<or> (k' = k \<and> v' = v)"
  by (induction al) (auto split: if_splits)

lemma fold_update_values:
  assumes "\<forall>(k, v)\<in>set scores. P v" and "\<forall>m\<in>set ms. P (f m)"
  shows "\<forall>(k, v)\<in>set (fold (\<lambda>m. AList.update (name m) (f m)) ms scores). P v"
  using assms
proof (induction ms arbitrary: scores)
  case Nil
  then show ?case by simp
next
  case (Cons m ms)
  have "\<forall>(k, v)\<in>set (AList.update (name m) (f m) scores). P v"
    using Cons.prems by (auto dest: update_member)
  with Cons show ?case by simp
qed

lemma fold_update_keys:
  "k \<in> fst ` set scores \<union> name ` set ms
   \<Longrightarrow> map_of (fold (\<lambda>m. AList.update (name m) (f m)) ms scores) k \<noteq> None"
proof (induction ms arbitrary: scores)
  case Nil
  then show ?case by (simp add: map_of_eq_None_iff)
next
  case (Cons m ms)
  have "k \<in> fst ` set (AList.update (name m) (f m) scores) \<union> name ` set ms"
    using Cons.prems by (auto simp: dom_update)
  then show ?case using Cons.IH by simp
qed

lemma getitems_present:
  "\<forall>k\<in>set ks. map_of d k \<noteq> None \<Longrightarrow> getitems d ks = Inr (map (\<lambda>k. the (map_of d k)) ks)"
  by (induction ks) auto

lemma map2_map: "map2 (\<lambda>v m. g v m) (map f ms) ms = map (\<lambda>m. g (f m) m) ms"
  by (induction ms) auto

lemma update_new: "k \<notin> fst ` set al \<Longrightarrow> AList.update k v al = al @ [(k, v)]"
  by (induction al) auto

lemma fold_update_distinct:
  "distinct (map name ms) \<Longrightarrow> name ` set ms \<inter> fst ` set scores = {}
   \<Longrightarrow> fold (\<lambda>m. AList.update (name m) (f m)) ms scores = scores @ map (\<lambda>m. (name m, f m)) ms"
proof (induction ms arbitrary: scores)
  case Nil
  then show ?case by simp
next
  case (Cons m ms)
  from Cons.prems have new: "name m \<notin> fst ` set scores" by auto
  have "name ` set ms \<inter> fst ` set (scores @ [(name m, f m)]) = {}"
    using Cons.prems by auto
  with Cons.IH [of "scores @ [(name m, f m)]"] Cons.prems
  show ?case by (simp add: update_new [OF new])
qed

lemma map_of_named:
  "distinct (map name ms) \<Longrightarrow> m \<in> set ms
   \<Longrightarrow> map_of (map (\<lambda>m. (name m, f m)) ms) (name m) = Some (f m)"
proof (induction ms)
  case Nil
  then show ?case by simp
next
  case (Cons a ms)
  show ?case
  proof (cases "m = a")
    case True
    then show ?thesis by simp
  next
    case False
    with Cons.prems have mem: "m \<in> set ms" by simp
    then have "name m \<in> name ` set ms" by (rule imageI)
    with Cons.prems have "name m \<noteq> name a" by auto
    with Cons mem show ?thesis by simp
  qed
qed

lemma calculate_confidence_value:
  assumes gh: "getitems scores (map name (filter (\<lambda>m. weight m \<ge> 2 / 10) metrics)) = Inr hs"
    and ne: "scores \<noteq> []"
  shows "calculate_confidence lib scores metrics
           = Inr (if hs = []
                  then float_div lib (float_sum lib (map snd scores)) (real (length scores))
                  else float_div lib (float_sum lib hs) (real (length hs)))"
  unfolding calculate_confidence_def Let_def gh using ne by simp

text \<open>
  The run of \<open>analyze_response\<close> on a non-empty metric set whose measurements all
  return: the scores are stored under the names in the order of the metrics, a later
  metric overwriting an earlier one of the same name.
\<close>

lemma analyze_response_run:
  assumes sel: "select_metrics quality_frameworks framework expected = Inr (fw, metrics)"
    and ne: "metrics \<noteq> []"
    and ev: "\<forall>m\<in>set metrics. \<exists>v. evaluate_metric lib response m = Inr v"
  shows "\<exists>issues suggs c.
           snd (analyze_response lib quality_frameworks response framework expected usage)
             = Inr \<lparr>overall_score =
                      float_mul lib
                        (float_sum lib
                           (map (\<lambda>m. float_mul lib
                                  (the (map_of (fold (\<lambda>m. AList.update (name m)
                                          (fst (projr (evaluate_metric lib response m))))
                                        metrics []) (name m)))
                                  (weight m)) metrics)) 100,
                    metric_scores =
                      fold (\<lambda>m. AList.update (name m)
                              (fst (projr (evaluate_metric lib response m)))) metrics [],
                    issues_found = issues, suggestions = suggs,
                    confidence_level = c, token_efficiency = usage\<rparr>
           \<and> calculate_confidence lib
                (fold (\<lambda>m. AList.update (name m)
                        (fst (projr (evaluate_metric lib response m)))) metrics []) metrics
               = Inr c"
proof -
  let ?f = "\<lambda>m. fst (projr (evaluate_metric lib response m))"
  let ?sc = "fold (\<lambda>m. AList.update (name m) (?f m)) metrics []"
  let ?val = "\<lambda>m. the (map_of ?sc (name m))"
  obtain issues suggs where loop:
    "evaluate_metrics lib response metrics ([], [], []) = Inr (?sc, issues, suggs)"
    using evaluate_metrics_returns [OF ev, of "[]" "[]" "[]"] by simp
  have keys: "\<forall>m\<in>set metrics. map_of ?sc (name m) \<noteq> None"
    by (simp add: fold_update_keys)
  then have "\<forall>k\<in>set (map name metrics). map_of ?sc k \<noteq> None" by simp
  then have "getitems ?sc (map name metrics)
               = Inr (map (\<lambda>k. the (map_of ?sc k)) (map name metrics))"
    by (rule getitems_present)
  then have gi: "getitems ?sc (map name metrics) = Inr (map ?val metrics)"
    by (simp add: comp_def)
  let ?hw = "filter (\<lambda>m. weight m \<ge> 2 / 10) metrics"
  have "\<forall>k\<in>set (map name ?hw). map_of ?sc k \<noteq> None" using keys by auto
  then have gh: "getitems ?sc (map name ?hw)
                   = Inr (map (\<lambda>k. the (map_of ?sc k)) (map name ?hw))"
    by (rule getitems_present)
  obtain m where "m \<in> set metrics" using ne by (cases metrics) auto
  with keys have "map_of ?sc (name m) \<noteq> None" by blast
  then have "?sc \<noteq> []" by auto
  with gh obtain c where conf: "calculate_confidence lib ?sc metrics = Inr c"
    using calculate_confidence_value by blast
  have "snd (analyze_response lib quality_frameworks response framework expected usage)
          = Inr \<lparr>overall_score =
                   float_mul lib (float_sum lib (map (\<lambda>m. float_mul lib (?val m) (weight m)) metrics)) 100,
                 metric_scores = ?sc, issues_found = issues, suggestions = suggs,
                 confidence_level = c, token_efficiency = usage\<rparr>"
    by (simp add: analyze_response_def sel loop gi conf Let_def map2_map)
  with conf show ?thesis by blast
qed

lemma analyze_response_Inr:
  assumes sel: "select_metrics quality_frameworks framework expected = Inr (fw, metrics)"
    and run: "snd (analyze_response lib quality_frameworks response framework expected usage)
                = Inr res"
  shows "metrics \<noteq> [] \<and> (\<forall>m\<in>set metrics. \<exists>v. evaluate_metric lib response m = Inr v)"
proof
  show "metrics \<noteq> []"
  proof
    assume "metrics = []"
    with sel run show False
      by (simp add: analyze_response_def calculate_confidence_def)
  qed
next
  show "\<forall>m\<in>set metrics. \<exists>v. evaluate_metric lib response m = Inr v"
  proof (cases "evaluate_metrics lib response metrics ([], [], [])")
    case (Inl e)
    with sel run show ?thesis by (simp add: analyze_response_def)
  next
    case (Inr out)
    then show ?thesis by (rule evaluate_metrics_Inr)
  qed
qed

lemma stored_scores_range:
  assumes ev: "\<forall>m\<in>set metrics. \<exists>v. evaluate_metric lib response m = Inr v"
  shows "\<forall>(k, v)\<in>set (fold (\<lambda>m. AList.update (name m)
                              (fst (projr (evaluate_metric lib response m)))) metrics []).
           0 \<le> v \<and> v \<le> 1"
proof (rule fold_update_values)
  show "\<forall>(k, v)\<in>set []. 0 \<le> (v::real) \<and> v \<le> 1" by simp
next
  show "\<forall>m\<in>set metrics. 0 \<le> fst (projr (evaluate_metric lib response m))
                          \<and> fst (projr (evaluate_metric lib response m)) \<le> 1"
  proof
    fix m assume "m \<in> set metrics"
    with ev obtain s i u where "evaluate_metric lib response m = Inr (s, i, u)" by fastforce
    then show "0 \<le> fst (projr (evaluate_metric lib response m))
               \<and> fst (projr (evaluate_metric lib response m)) \<le> 1"
      using evaluate_metric_range by fastforce
  qed
qed

lemma own_scores:
  assumes ev: "\<forall>m\<in>set metrics. \<exists>v. evaluate_metric lib response m = Inr v"
  shows "list_all2 (\<lambda>m s. \<exists>i u. evaluate_metric lib response m = Inr (s, i, u)) metrics
           (map (\<lambda>m. fst (projr (evaluate_metric lib response m))) metrics)"
proof -
  have "\<exists>i u. evaluate_metric lib response m
                = Inr (fst (projr (evaluate_metric lib response m)), i, u)"
    if "m \<in> set metrics" for m
  proof -
    from ev that obtain s i u where "evaluate_metric lib response m = Inr (s, i, u)" by fastforce
    then show ?thesis by simp
  qed
  then show ?thesis by (simp add: list_all2_map2 list_all2_same)
qed


subsection \<open>The overall score\<close>

lemma getitems_named:
  "distinct (map name ms) \<Longrightarrow> set xs \<subseteq> set ms
   \<Longrightarrow> getitems (map (\<lambda>m. (name m, f m)) ms) (map name xs) = Inr (map f xs)"
  by (induction xs) (simp_all add: map_of_named)

lemma filter_zip_map:
  "map snd (filter (\<lambda>(m, s). P m) (zip ms (map f ms))) = map f (filter P ms)"
  by (induction ms) auto

lemma stored_values_named:
  assumes "distinct (map name ms)"
  shows "map (\<lambda>m. g (the (map_of (map (\<lambda>m. (name m, f m)) ms) (name m))) m) ms
           = map (\<lambda>m. g (f m) m) ms"
proof (rule map_cong [OF refl])
  fix m assume "m \<in> set ms"
  then show "g (the (map_of (map (\<lambda>m. (name m, f m)) ms) (name m))) m = g (f m) m"
    by (simp add: map_of_named [OF assms])
qed

lemma zip_same: "zip (map f xs) (map g xs) = map (\<lambda>x. (f x, g x)) xs"
  by (induction xs) auto

lemma evaluate_binary:
  "measurement_type m = lit ''binary'' \<Longrightarrow> evaluate_metric lib r m = measure_binary lib r m"
  by (simp add: evaluate_metric_def)

lemma evaluate_count:
  "measurement_type m = lit ''count'' \<Longrightarrow> evaluate_metric lib r m = measure_count lib r m"
  by (simp add: evaluate_metric_def lit_def)

lemma evaluate_ratio:
  "measurement_type m = lit ''ratio'' \<Longrightarrow> evaluate_metric lib r m = measure_ratio lib r m"
  by (simp add: evaluate_metric_def lit_def)

lemma evaluate_presence:
  "measurement_type m = lit ''presence''
   \<Longrightarrow> evaluate_metric lib r m = Inr (measure_presence lib r m)"
  by (simp add: evaluate_metric_def lit_def)

lemma x_in_xy: "sublist (lit ''<x>'') (lit ''<x><y>'')" by code_simp
lemma y_in_xy: "sublist (lit ''<y>'') (lit ''<x><y>'')" by code_simp

lemma digits_unknown: "hd s = 49 \<Longrightarrow> s \<noteq> [] \<Longrightarrow> map_of known_documents s = None"
  by (cases s) (auto simp: known_documents_def lit_def)

lemma long_number_raises:
  "evaluate_metric example_lib (replicate 4301 49) (create_structured_metrics ! 0)
     = Inl (Raised ''ValueError'')"
proof -
  have p: "fromstring example_lib (replicate 4301 49)
             = ParseError (lit ''syntax error: line 1, column 0'')"
    by (simp add: example_lib_def digits_unknown)
  have j: "json_loads example_lib (replicate 4301 49) = JSONRaised (Raised ''ValueError'')"
    by (simp add: example_lib_def list_all_iff)
  show ?thesis
    by (simp add: evaluate_metric_def create_structured_metrics_def no_criteria_def
          measure_binary_def p j lit_def)
qed

text \<open>
  C1, as stated, has \<open>analyze_response\<close> return for every text a result whose overall
  score is at most 100. The weights are not normalised: with two metrics of weight
  0.75 that both score 1, the overall score is 150. And the call does not return for
  every text: on a text of 4301 digits the built-in framework \<open>structured_output\<close> asks
  \<open>json.loads\<close> for a number beyond its limit of 4300 digits, which raises a
  \<open>ValueError\<close> that the analyzer does not catch.
\<close>

theorem analyze_response_ranges_counterexample:
  "snd (analyze_response example_lib [(lit ''general_analysis'', heavy_metrics)] (lit ''<x><y>'')
          (lit ''general_analysis'') None None)
     = Inr \<lparr>overall_score = 150,
            metric_scores = [(lit ''x_present'', 1), (lit ''y_present'', 1)],
            issues_found = [], suggestions = [], confidence_level = 1,
            token_efficiency = None\<rparr>
   \<and> snd (analyze_response example_lib example_frameworks (replicate 4301 49)
            (lit ''structured_output'') None None)
       = Inl (Raised ''ValueError'')"
proof -
  have a: "lit ''<'' @ lit ''x'' @ lit ''>'' = lit ''<x>''"
    "lit ''<'' @ lit ''y'' @ lit ''>'' = lit ''<y>''"
    by (simp_all add: lit_def)
  have px: "tag_present (lit ''<x><y>'') (lit ''x'')" "tag_present (lit ''<x><y>'') (lit ''y'')"
    by (simp_all add: tag_present_def a x_in_xy y_in_xy)
  have n: "lit ''x_present'' \<noteq> lit ''y_present''" "lit ''y_present'' \<noteq> lit ''x_present''"
    by (simp_all add: lit_def)
  define m0 where "m0 = hd heavy_metrics"
  define m1 where "m1 = hd (tl heavy_metrics)"
  have h: "heavy_metrics = [m0, m1]"
    by (simp add: m0_def m1_def heavy_metrics_def)
  have e: "evaluate_metric example_lib (lit ''<x><y>'') m0 = Inr (1, [], [])"
    "evaluate_metric example_lib (lit ''<x><y>'') m1 = Inr (1, [], [])"
    by (simp_all add: m0_def m1_def heavy_metrics_def no_criteria_def evaluate_presence
          measure_presence_def px)
  have nm: "name m0 = lit ''x_present''" "name m1 = lit ''y_present''"
    "weight m0 = 3 / 4" "weight m1 = 3 / 4"
    by (simp_all add: m0_def m1_def heavy_metrics_def)
  have sel: "select_metrics [(lit ''general_analysis'', heavy_metrics)] (lit ''general_analysis'') None
               = Inr (lit ''general_analysis'', [m0, m1])"
    using h by (simp add: select_metrics_def)
  have loop: "evaluate_metrics example_lib (lit ''<x><y>'') [m0, m1] ([], [], [])
                = Inr ([(lit ''x_present'', 1), (lit ''y_present'', 1)], [], [])"
    by (simp add: e nm n)
  have fl: "float_sum example_lib = sum_list" "float_mul example_lib = (\<lambda>x y. x * y)"
    "float_div example_lib = (\<lambda>x y. x / y)"
    by (simp_all add: example_lib_def)
  have conf: "calculate_confidence example_lib [(lit ''x_present'', 1), (lit ''y_present'', 1)]
                [m0, m1] = Inr 1"
    by (simp add: calculate_confidence_def nm n fl)
  have first: "snd (analyze_response example_lib [(lit ''general_analysis'', heavy_metrics)]
                      (lit ''<x><y>'') (lit ''general_analysis'') None None)
                 = Inr \<lparr>overall_score = 150,
                        metric_scores = [(lit ''x_present'', 1), (lit ''y_present'', 1)],
                        issues_found = [], suggestions = [], confidence_level = 1,
                        token_efficiency = None\<rparr>"
    by (simp add: analyze_response_def sel loop conf nm n fl del: evaluate_metrics.simps)
  have sel2: "select_metrics example_frameworks (lit ''structured_output'') None
                = Inr (lit ''structured_output'', create_structured_metrics)"
    by (simp add: select_metrics_def example_frameworks_def lit_def)
  have c: "create_structured_metrics
             = create_structured_metrics ! 0 # tl create_structured_metrics"
    by (simp add: create_structured_metrics_def)
  have "evaluate_metrics example_lib (replicate 4301 49)
          (create_structured_metrics ! 0 # tl create_structured_metrics) ([], [], [])
          = Inl (Raised ''ValueError'')"
    by (simp add: long_number_raises)
  with c have loop2: "evaluate_metrics example_lib (replicate 4301 49) create_structured_metrics
                        ([], [], []) = Inl (Raised ''ValueError'')"
    by simp
  have second: "snd (analyze_response example_lib example_frameworks (replicate 4301 49)
                       (lit ''structured_output'') None None)
                  = Inl (Raised ''ValueError'')"
    by (simp add: analyze_response_def sel2 loop2 del: evaluate_metrics.simps)
  from first second show ?thesis by (rule conjI)
qed

text \<open>
  C1, amended. For the metric set \<open>metrics\<close> that the framework name selects:
  \<open>analyze_response\<close> returns a result exactly when the set is not empty and the
  measurement of every metric returns. Every result it returns has each per-metric
  score in [0,1], a score under the name of every metric, and as overall score the
  float product by 100 of the float sum of the products of the score under each
  metric's name and its weight. When the names of the metrics are pairwise distinct,
  the score under a metric's name is that metric's own score: the scores are the
  scores of the metrics in order, and the overall score is computed from them. No
  bound on the overall score is claimed.
\<close>

theorem analyze_response_ranges:
  assumes sel: "select_metrics quality_frameworks framework expected = Inr (fw, metrics)"
  shows "(\<exists>res. snd (analyze_response lib quality_frameworks response framework expected usage)
                  = Inr res)
           = (metrics \<noteq> [] \<and> (\<forall>m\<in>set metrics. \<exists>v. evaluate_metric lib response m = Inr v))
         \<and> (\<forall>res. snd (analyze_response lib quality_frameworks response framework expected usage)
                     = Inr res \<longrightarrow>
               (\<forall>(k, v)\<in>set (metric_scores res). 0 \<le> v \<and> v \<le> 1)
             \<and> (\<forall>m\<in>set metrics. map_of (metric_scores res) (name m) \<noteq> None)
             \<and> overall_score res
                 = float_mul lib
                     (float_sum lib
                        (map (\<lambda>m. float_mul lib (the (map_of (metric_scores res) (name m)))
                                    (weight m)) metrics)) 100
             \<and> (distinct (map name metrics) \<longrightarrow>
                  (\<exists>scores.
                     list_all2 (\<lambda>m s. \<exists>i u. evaluate_metric lib response m = Inr (s, i, u))
                       metrics scores
                     \<and> metric_scores res = zip (map name metrics) scores
                     \<and> overall_score res
                         = float_mul lib
                             (float_sum lib
                                (map2 (\<lambda>s m. float_mul lib s (weight m)) scores metrics)) 100)))"
proof -
  let ?run = "snd (analyze_response lib quality_frameworks response framework expected usage)"
  let ?f = "\<lambda>m. fst (projr (evaluate_metric lib response m))"
  let ?sc = "fold (\<lambda>m. AList.update (name m) (?f m)) metrics []"
  have returns: "(\<exists>res. ?run = Inr res)
                   = (metrics \<noteq> [] \<and> (\<forall>m\<in>set metrics. \<exists>v. evaluate_metric lib response m = Inr v))"
    using analyze_response_Inr [OF sel] analyze_response_run [OF sel] by blast
  have result: "(\<forall>(k, v)\<in>set (metric_scores res). 0 \<le> v \<and> v \<le> 1)
             \<and> (\<forall>m\<in>set metrics. map_of (metric_scores res) (name m) \<noteq> None)
             \<and> overall_score res
                 = float_mul lib
                     (float_sum lib
                        (map (\<lambda>m. float_mul lib (the (map_of (metric_scores res) (name m)))
                                    (weight m)) metrics)) 100
             \<and> (distinct (map name metrics) \<longrightarrow>
                  (\<exists>scores.
                     list_all2 (\<lambda>m s. \<exists>i u. evaluate_metric lib response m = Inr (s, i, u))
                       metrics scores
                     \<and> metric_scores res = zip (map name metrics) scores
                     \<and> overall_score res
                         = float_mul lib
                             (float_sum lib
                                (map2 (\<lambda>s m. float_mul lib s (weight m)) scores metrics)) 100))"
    if run: "?run = Inr res" for res
  proof -
    from analyze_response_Inr [OF sel run]
    have ne: "metrics \<noteq> []"
      and ev: "\<forall>m\<in>set metrics. \<exists>v. evaluate_metric lib response m = Inr v"
      by simp_all
    from analyze_response_run [OF sel ne ev, of usage] run
    have ms: "metric_scores res = ?sc"
      and ov: "overall_score res
                 = float_mul lib
                     (float_sum lib
                        (map (\<lambda>m. float_mul lib (the (map_of ?sc (name m))) (weight m)) metrics))
                     100"
      by auto
    have c1: "\<forall>(k, v)\<in>set (metric_scores res). 0 \<le> v \<and> v \<le> 1"
      unfolding ms by (rule stored_scores_range [OF ev])
    have c2: "\<forall>m\<in>set metrics. map_of (metric_scores res) (name m) \<noteq> None"
      unfolding ms by (simp add: fold_update_keys)
    have c3: "overall_score res
                = float_mul lib
                    (float_sum lib
                       (map (\<lambda>m. float_mul lib (the (map_of (metric_scores res) (name m)))
                                   (weight m)) metrics)) 100"
      unfolding ms by (rule ov)
    have c4: "\<exists>scores.
                list_all2 (\<lambda>m s. \<exists>i u. evaluate_metric lib response m = Inr (s, i, u))
                  metrics scores
                \<and> metric_scores res = zip (map name metrics) scores
                \<and> overall_score res
                    = float_mul lib
                        (float_sum lib
                           (map2 (\<lambda>s m. float_mul lib s (weight m)) scores metrics)) 100"
      if dist: "distinct (map name metrics)"
    proof -
      have fold: "?sc = map (\<lambda>m. (name m, ?f m)) metrics"
        using fold_update_distinct [OF dist, of "[]" ?f] by simp
      have z: "metric_scores res = zip (map name metrics) (map ?f metrics)"
        unfolding ms fold by (simp add: zip_same)
      have "map (\<lambda>m. float_mul lib (the (map_of ?sc (name m))) (weight m)) metrics
              = map (\<lambda>m. float_mul lib (?f m) (weight m)) metrics"
        unfolding fold by (rule stored_values_named [OF dist])
      also have "\<dots> = map2 (\<lambda>s m. float_mul lib s (weight m)) (map ?f metrics) metrics"
        by (simp add: map2_map)
      finally have o: "overall_score res
                         = float_mul lib
                             (float_sum lib
                                (map2 (\<lambda>s m. float_mul lib s (weight m)) (map ?f metrics)
                                   metrics)) 100"
        using ov by simp
      from own_scores [OF ev] z o show ?thesis by blast
    qed
    from c1 c2 c3 c4 show ?thesis by blast
  qed
  from returns result show ?thesis by blast
qed

lemma plain_words_scores:
  "map (evaluate_metric example_lib (lit ''plain words'')) create_structured_metrics
     = [Inr (0, [lit ''Response is not valid XML or JSON''],
                [lit ''Ensure response follows proper XML or JSON format'']),
        Inr (1 / 2, [], []), Inr (1, [], []), Inr (1 / 2, [], [])]"
proof -
  have p: "fromstring example_lib (lit ''plain words'')
             = ParseError (lit ''syntax error: line 1, column 0'')"
    by (simp add: example_lib_def known_documents_def lit_def)
  have j: "json_loads example_lib (lit ''plain words'') = JSONDecodeError"
    by (simp add: example_lib_def lit_def)
  have f: "re_findall example_lib p (lit ''plain words'') = Inr []" for p
    by (simp add: example_lib_def)
  have d: "re_findall_dotall example_lib element_pattern (lit ''plain words'') = Inr []"
    by (simp add: example_lib_def known_elements_def lit_def)
  define m0 where "m0 = create_structured_metrics ! 0"
  define m1 where "m1 = create_structured_metrics ! 1"
  define m2 where "m2 = create_structured_metrics ! 2"
  define m3 where "m3 = create_structured_metrics ! 3"
  have c: "create_structured_metrics = [m0, m1, m2, m3]"
    by (simp add: m0_def m1_def m2_def m3_def create_structured_metrics_def)
  have e0: "evaluate_metric example_lib (lit ''plain words'') m0
              = Inr (0, [lit ''Response is not valid XML or JSON''],
                        [lit ''Ensure response follows proper XML or JSON format''])"
    by (simp add: m0_def create_structured_metrics_def no_criteria_def evaluate_binary
          measure_binary_def p j)
  have e1: "evaluate_metric example_lib (lit ''plain words'') m1 = Inr (1 / 2, [], [])"
    by (simp add: m1_def create_structured_metrics_def no_criteria_def evaluate_count
          measure_count_def)
  have e2: "evaluate_metric example_lib (lit ''plain words'') m2 = Inr (1, [], [])"
    by (simp add: m2_def create_structured_metrics_def no_criteria_def evaluate_binary
          measure_binary_def f)
  have e3: "evaluate_metric example_lib (lit ''plain words'') m3 = Inr (1 / 2, [], [])"
    by (simp add: m3_def create_structured_metrics_def no_criteria_def evaluate_ratio
          measure_ratio_def d)
  show ?thesis unfolding c by (simp add: e0 e1 e2 e3)
qed

theorem analyze_response_ranges_witness:
  "select_metrics example_frameworks (lit ''structured_output'') None
     = Inr (lit ''structured_output'', create_structured_metrics)
   \<and> create_structured_metrics \<noteq> []
   \<and> map (evaluate_metric example_lib (lit ''plain words'')) create_structured_metrics
       = [Inr (0, [lit ''Response is not valid XML or JSON''],
                  [lit ''Ensure response follows proper XML or JSON format'']),
          Inr (1 / 2, [], []), Inr (1, [], []), Inr (1 / 2, [], [])]
   \<and> (\<exists>res. snd (analyze_response example_lib example_frameworks (lit ''plain words'')
                    (lit ''structured_output'') None None) = Inr res
             \<and> list_all (\<lambda>(k, v). 0 \<le> v \<and> v \<le> 1) (metric_scores res))"
proof -
  have sel: "select_metrics example_frameworks (lit ''structured_output'') None
               = Inr (lit ''structured_output'', create_structured_metrics)"
    by (simp add: select_metrics_def example_frameworks_def lit_def)
  have ne: "create_structured_metrics \<noteq> []"
    by (simp add: create_structured_metrics_def)
  have ev: "\<forall>m\<in>set create_structured_metrics.
              \<exists>v. evaluate_metric example_lib (lit ''plain words'') m = Inr v"
  proof
    fix m assume "m \<in> set create_structured_metrics"
    then have "evaluate_metric example_lib (lit ''plain words'') m
                 \<in> set (map (evaluate_metric example_lib (lit ''plain words''))
                          create_structured_metrics)"
      by simp
    then show "\<exists>v. evaluate_metric example_lib (lit ''plain words'') m = Inr v"
      unfolding plain_words_scores by auto
  qed
  from analyze_response_ranges [OF sel, of example_lib "lit ''plain words''" None] ne ev
  have "\<exists>res. snd (analyze_response example_lib example_frameworks (lit ''plain words'')
                    (lit ''structured_output'') None None) = Inr res
             \<and> list_all (\<lambda>(k, v). 0 \<le> v \<and> v \<le> 1) (metric_scores res)"
    unfolding list_all_iff by blast
  with sel ne plain_words_scores show ?thesis by (intro conjI)
qed

text \<open>
  C3. For a metric set whose names are pairwise distinct (the name identifies the
  metric) and every text: \<open>analyze_response\<close> returns a result exactly when the set is
  not empty and the measurement of every metric returns, and the confidence of every
  result it returns is the mean, as the float quotient of the float sum by the number,
  of the scores of exactly those metrics whose weight is at least 0.2; if there is
  none, of the scores of all metrics. The witness is the example of the claim: \<open>A\<close>
  (weight 0.3, score 0.9) and \<open>B\<close> (weight 0.1, score 0.2) give the confidence 0.9.
\<close>

theorem confidence_mean:
  assumes sel: "select_metrics quality_frameworks framework expected = Inr (fw, metrics)"
    and dist: "distinct (map name metrics)"
  shows "(\<exists>res. snd (analyze_response lib quality_frameworks response framework expected usage)
                  = Inr res)
           = (metrics \<noteq> [] \<and> (\<forall>m\<in>set metrics. \<exists>v. evaluate_metric lib response m = Inr v))
         \<and> (\<forall>res. snd (analyze_response lib quality_frameworks response framework expected usage)
                     = Inr res \<longrightarrow>
               (\<exists>scores.
                  list_all2 (\<lambda>m s. \<exists>i u. evaluate_metric lib response m = Inr (s, i, u))
                    metrics scores
                  \<and> confidence_level res
                      = (let high = map snd (filter (\<lambda>(m, s). weight m \<ge> 2 / 10)
                                               (zip metrics scores))
                         in if high \<noteq> []
                            then float_div lib (float_sum lib high) (real (length high))
                            else float_div lib (float_sum lib scores) (real (length scores)))))"
proof -
  let ?run = "snd (analyze_response lib quality_frameworks response framework expected usage)"
  let ?f = "\<lambda>m. fst (projr (evaluate_metric lib response m))"
  let ?sc = "map (\<lambda>m. (name m, ?f m)) metrics"
  let ?hw = "filter (\<lambda>m. weight m \<ge> 2 / 10) metrics"
  have returns: "(\<exists>res. ?run = Inr res)
                   = (metrics \<noteq> [] \<and> (\<forall>m\<in>set metrics. \<exists>v. evaluate_metric lib response m = Inr v))"
    using analyze_response_Inr [OF sel] analyze_response_run [OF sel] by blast
  have fold: "fold (\<lambda>m. AList.update (name m) (?f m)) metrics [] = ?sc"
    using fold_update_distinct [OF dist, of "[]" ?f] by simp
  have result: "\<exists>scores.
                  list_all2 (\<lambda>m s. \<exists>i u. evaluate_metric lib response m = Inr (s, i, u))
                    metrics scores
                  \<and> confidence_level res
                      = (let high = map snd (filter (\<lambda>(m, s). weight m \<ge> 2 / 10)
                                               (zip metrics scores))
                         in if high \<noteq> []
                            then float_div lib (float_sum lib high) (real (length high))
                            else float_div lib (float_sum lib scores) (real (length scores)))"
    if run: "?run = Inr res" for res
  proof -
    from analyze_response_Inr [OF sel run]
    have ne: "metrics \<noteq> []"
      and ev: "\<forall>m\<in>set metrics. \<exists>v. evaluate_metric lib response m = Inr v"
      by simp_all
    from analyze_response_run [OF sel ne ev, of usage] run
    have cc: "calculate_confidence lib ?sc metrics = Inr (confidence_level res)"
      unfolding fold by auto
    have gh: "getitems ?sc (map name ?hw) = Inr (map ?f ?hw)"
      by (rule getitems_named [OF dist]) auto
    from ne have sne: "?sc \<noteq> []" by simp
    have snds: "map snd ?sc = map ?f metrics" by (simp add: comp_def)
    from calculate_confidence_value [OF gh sne, of lib] cc
    have "confidence_level res
            = (if map ?f ?hw = []
               then float_div lib (float_sum lib (map ?f metrics)) (real (length metrics))
               else float_div lib (float_sum lib (map ?f ?hw)) (real (length (map ?f ?hw))))"
      unfolding snds by simp
    then have "confidence_level res
            = (let high = map snd (filter (\<lambda>(m, s). weight m \<ge> 2 / 10)
                                     (zip metrics (map ?f metrics)))
               in if high \<noteq> []
                  then float_div lib (float_sum lib high) (real (length high))
                  else float_div lib (float_sum lib (map ?f metrics))
                         (real (length (map ?f metrics))))"
      unfolding Let_def filter_zip_map by simp
    with own_scores [OF ev] show ?thesis by blast
  qed
  from returns result show ?thesis by blast
qed

lemma strip_digits: "strip (lit ''123456789'') = lit ''123456789''"
  by (rule strip_no_space) (simp add: lit_def is_space_def)

lemma length_digits: "length (lit ''123456789'') = 9"
  by (simp add: lit_def)

theorem confidence_mean_witness:
  "select_metrics [(lit ''general_analysis'', ab_metrics)] (lit ''general_analysis'') None
     = Inr (lit ''general_analysis'', ab_metrics)
   \<and> distinct (map name ab_metrics)
   \<and> map weight ab_metrics = [3 / 10, 1 / 10]
   \<and> (\<exists>ia ua ib ub.
         map (evaluate_metric example_lib (lit ''123456789'')) ab_metrics
           = [Inr (9 / 10, ia, ua), Inr (2 / 10, ib, ub)])
   \<and> (\<exists>res. snd (analyze_response example_lib [(lit ''general_analysis'', ab_metrics)]
                    (lit ''123456789'') (lit ''general_analysis'') None None) = Inr res
             \<and> confidence_level res = 9 / 10)"
proof -
  define a where "a = hd ab_metrics"
  define b where "b = hd (tl ab_metrics)"
  have ab: "ab_metrics = [a, b]" by (simp add: a_def b_def ab_metrics_def)
  have w: "weight a = 3 / 10" "weight b = 1 / 10"
    by (simp_all add: a_def b_def ab_metrics_def)
  have sel: "select_metrics [(lit ''general_analysis'', ab_metrics)] (lit ''general_analysis'') None
               = Inr (lit ''general_analysis'', ab_metrics)"
    by (simp add: select_metrics_def)
  have dist: "distinct (map name ab_metrics)"
    by (simp add: ab_metrics_def lit_def)
  have ws: "map weight ab_metrics = [3 / 10, 1 / 10]"
    by (simp add: ab_metrics_def)
  obtain ia ua where ea: "evaluate_metric example_lib (lit ''123456789'') a = Inr (9 / 10, ia, ua)"
    by (simp add: a_def ab_metrics_def no_criteria_def evaluate_count measure_count_def
          strip_digits length_digits)
  obtain ib ub where eb: "evaluate_metric example_lib (lit ''123456789'') b = Inr (2 / 10, ib, ub)"
    by (simp add: b_def ab_metrics_def no_criteria_def evaluate_count measure_count_def
          strip_digits length_digits)
  have scores: "map (evaluate_metric example_lib (lit ''123456789'')) ab_metrics
                  = [Inr (9 / 10, ia, ua), Inr (2 / 10, ib, ub)]"
    unfolding ab by (simp add: ea eb)
  have fl: "float_sum example_lib = sum_list" "float_div example_lib = (\<lambda>x y. x / y)"
    by (simp_all add: example_lib_def)
  have ne: "ab_metrics \<noteq> []" by (simp add: ab)
  from ea have ra: "\<exists>v. evaluate_metric example_lib (lit ''123456789'') a = Inr v" by (rule exI)
  from eb have rb: "\<exists>v. evaluate_metric example_lib (lit ''123456789'') b = Inr v" by (rule exI)
  have ev: "\<forall>m\<in>set ab_metrics. \<exists>v. evaluate_metric example_lib (lit ''123456789'') m = Inr v"
    unfolding ab using ra rb by (simp del: ex_simps)
  from confidence_mean [OF sel dist, of example_lib "lit ''123456789''" None] ne ev
  obtain res scs where
    run: "snd (analyze_response example_lib [(lit ''general_analysis'', ab_metrics)]
                 (lit ''123456789'') (lit ''general_analysis'') None None) = Inr res"
    and own: "list_all2 (\<lambda>m s. \<exists>i u. evaluate_metric example_lib (lit ''123456789'') m
                                          = Inr (s, i, u)) ab_metrics scs"
    and conf: "confidence_level res
                 = (let high = map snd (filter (\<lambda>(m, s). weight m \<ge> 2 / 10) (zip ab_metrics scs))
                    in if high \<noteq> []
                       then float_div example_lib (float_sum example_lib high) (real (length high))
                       else float_div example_lib (float_sum example_lib scs)
                              (real (length scs)))"
    by blast
  from own have "scs = [9 / 10, 2 / 10]"
    unfolding ab by (auto simp: list_all2_Cons1 ea eb)
  with conf have "confidence_level res = 9 / 10"
    unfolding ab by (simp add: w fl)
  with run have "\<exists>res. snd (analyze_response example_lib [(lit ''general_analysis'', ab_metrics)]
                    (lit ''123456789'') (lit ''general_analysis'') None None) = Inr res
             \<and> confidence_level res = 9 / 10"
    by blast
  moreover from scores have "\<exists>ia ua ib ub.
         map (evaluate_metric example_lib (lit ''123456789'')) ab_metrics
           = [Inr (9 / 10, ia, ua), Inr (2 / 10, ib, ub)]"
    by (intro exI)
  ultimately show ?thesis using sel dist ws by (intro conjI)
qed


section \<open>Properties of the validator\<close>

lemma apply_rules_returns:
  "\<forall>rule\<in>set rules. \<exists>v. apply_rule lib r rule x = Inr v
   \<Longrightarrow> \<exists>out. apply_rules lib r x rules acc = Inr out"
proof (induction rules arbitrary: acc)
  case Nil
  show ?case by (cases acc) auto
next
  case (Cons rule rules)
  obtain e0 w0 i0 where acc: "acc = (e0, w0, i0)" using prod_cases3 by blast
  from Cons.prems obtain v where v: "apply_rule lib r rule x = Inr v" by auto
  from Cons.prems have "\<forall>rule\<in>set rules. \<exists>v. apply_rule lib r rule x = Inr v" by simp
  from Cons.IH [OF this] show ?case unfolding acc by (simp add: v)
qed


lemma apply_rules_acc:
  "apply_rules lib r x rules (e0, w0, i0)
     = (case apply_rules lib r x rules ([], [], []) of
          Inl y \<Rightarrow> Inl y
        | Inr (e, w, i) \<Rightarrow> Inr (e0 @ e, w0 @ w, i0 @ i))"
proof (induction rules arbitrary: e0 w0 i0)
  case Nil
  then show ?case by simp
next
  case (Cons rule rules)
  show ?case
  proof (cases "apply_rule lib r rule x")
    case (Inl y)
    then show ?thesis by simp
  next
    case (Inr v)
    show ?thesis
    proof (cases "v = []")
      case True
      with Inr show ?thesis using Cons.IH [of e0 w0 i0] by simp
    next
      case False
      consider (err) "severity rule = lit ''error''"
        | (warn) "severity rule \<noteq> lit ''error''" "severity rule = lit ''warning''"
        | (inf) "severity rule \<noteq> lit ''error''" "severity rule \<noteq> lit ''warning''"
        by blast
      then show ?thesis
      proof cases
        case err
        with Inr False show ?thesis
          using Cons.IH [of "e0 @ v" w0 i0] Cons.IH [of v "[]" "[]"]
          by (simp split: sum.splits)
      next
        case warn
        with Inr False show ?thesis
          using Cons.IH [of e0 "w0 @ v" i0] Cons.IH [of "[]" v "[]"]
          by (simp split: sum.splits)
      next
        case inf
        with Inr False show ?thesis
          using Cons.IH [of e0 w0 "i0 @ v"] Cons.IH [of "[]" "[]" v]
          by (simp split: sum.splits)
      qed
    qed
  qed
qed


lemma validate_xml_parsed:
  assumes "fromstring lib xml_content = Parsed r"
    and "select_rules schemas custom_schemas schema_name = Inr (rules, w0)"
    and "apply_rules lib r xml_content rules ([], w0, []) = Inr (errs, warns, infos)"
  shows "validate_xml lib schemas custom_schemas xml_content schema_name
           = Inr \<lparr>is_valid = (errs = []), errors = errs, warnings = warns, info = infos,
                  score = (if length (filter (\<lambda>rule. severity rule = lit ''error'') rules) > 0
                           then max 0 ((real (length (filter (\<lambda>rule. severity rule
                                                                  = lit ''error'') rules))
                                          - real (length errs))
                                       / real (length (filter (\<lambda>rule. severity rule
                                                                  = lit ''error'') rules)) * 100)
                           else 100),
                  element_count = length (iter r)\<rparr>"
  by (simp add: validate_xml_def assms Let_def)

lemma validate_xml_raises:
  assumes "fromstring lib xml_content = Parsed r"
    and "select_rules schemas custom_schemas schema_name = Inr (rules, w0)"
    and "apply_rules lib r xml_content rules ([], w0, []) = Inl y"
  shows "validate_xml lib schemas custom_schemas xml_content schema_name = Inl y"
  by (simp add: validate_xml_def assms)

lemma parse_error_result:
  assumes "fromstring lib xml_content = ParseError e"
  shows "validate_xml lib schemas custom_schemas xml_content schema_name
           = Inr \<lparr>is_valid = False, errors = [lit ''Invalid XML: '' @ e], warnings = [],
                  info = [], score = 0, element_count = 0\<rparr>"
  using assms by (simp add: validate_xml_def)

text \<open>
  C2. When the parser raises \<open>ParseError\<close>, \<open>validate_xml\<close> returns the failed result
  with exactly one error, score 0 and element count 0, whatever the registries and the
  schema name (\<open>parse_error_result\<close> above). But \<open>ParseError\<close> is the only exception
  that \<open>validate_xml\<close> catches: every other exception of the parser propagates out
  of \<open>validate_xml\<close>. The witness is the input \<^verbatim>\<open><a>\<close>, the lone surrogate
  \<open>0xD800\<close>, \<^verbatim>\<open></a>\<close>, which does not parse as XML: the parser raises
  \<open>UnicodeEncodeError\<close>, and so does \<open>validate_xml\<close>, where C2 has it return a result.
\<close>

theorem malformed_xml_raises:
  assumes "fromstring lib xml_content = ParseRaised x"
  shows "validate_xml lib schemas custom_schemas xml_content schema_name = Inl x"
  using assms by (simp add: validate_xml_def)

theorem malformed_xml_raises_witness:
  "fromstring example_lib (lit ''<a>'' @ [0xD800] @ lit ''</a>'')
     = ParseRaised (Raised ''UnicodeEncodeError'')
   \<and> validate_xml example_lib builtin_schemas [] (lit ''<a>'' @ [0xD800] @ lit ''</a>'')
       (lit ''general_analysis'') = Inl (Raised ''UnicodeEncodeError'')"
proof -
  have p: "fromstring example_lib (lit ''<a>'' @ [0xD800] @ lit ''</a>'')
             = ParseRaised (Raised ''UnicodeEncodeError'')"
    by (simp add: example_lib_def known_documents_def lit_def)
  from malformed_xml_raises [OF p, of builtin_schemas "[]" "lit ''general_analysis''"] p
  show ?thesis by (rule conjI [rotated])
qed


lemma strip_code: "strip (lit ''12abc'') = lit ''12abc''"
  by (rule strip_no_space) (simp add: lit_def is_space_def)

lemma example_findall: "findall example_lib e part = Inr (filter (\<lambda>c. tag c = part) (children e))"
  by (simp add: example_lib_def)

lemma split_c: "split 47 (lit ''c'') = [lit ''c'']"
  by (simp add: lit_def)


lemma find_c:
  "find_elements example_lib example_root (lit ''c'')
     = Inr [Element (lit ''c'') (Some (lit ''12abc'')) []]"
proof -
  have n: "lit ''c'' \<noteq> lit ''*''" "lit ''c'' \<noteq> []" by (simp_all add: lit_def)
  show ?thesis
    by (simp add: find_elements_def n split_c example_findall example_root_def)
qed


lemma parse_example:
  "fromstring example_lib (lit ''<r><c>12abc</c></r>'') = Parsed example_root"
  by (simp add: example_lib_def known_documents_def lit_def)

lemma example_re_match: "re_match example_lib p s = Inr (prefix p s)"
  by (simp add: example_lib_def)

lemma prefix_12: "prefix (lit ''12'') (lit ''12abc'')" by code_simp
lemma prefix_13: "\<not> prefix (lit ''13'') (lit ''12abc'')" by code_simp





text \<open>
  C5, as stated, asks for a violation when the trimmed text does not match the pattern
  in full. The validator calls \<open>re.match\<close>, which anchors the pattern at the start only:
  for the pattern \<open>12\<close>, which in full matches the text \<open>12\<close> alone, an element with the
  text \<open>12abc\<close> raises no violation.
\<close>

theorem format_rule_counterexample:
  "find_elements example_lib example_root (lit ''c'')
     = Inr [Element (lit ''c'') (Some (lit ''12abc'')) []]
   \<and> strip (lit ''12abc'') = lit ''12abc'' \<and> lit ''12abc'' \<noteq> lit ''12''
   \<and> re_match example_lib (lit ''12'') (lit ''12abc'') = Inr True
   \<and> rule_type (example_schema ! 2) = lit ''format''
   \<and> rule_criteria (example_schema ! 2)
       = Dict \<lparr>pattern = Some (lit ''12''), min_length = None, blacklisted = None\<rparr>
   \<and> apply_rule example_lib example_root (example_schema ! 2) (lit ''<r><c>12abc</c></r>'')
       = Inr []"
proof -
  have ne: "lit ''12abc'' \<noteq> lit ''12''" by (simp add: lit_def)
  have m: "re_match example_lib (lit ''12'') (lit ''12abc'') = Inr True"
    by (simp add: example_re_match prefix_12)
  have rt: "rule_type (example_schema ! 2) = lit ''format''"
    and rc: "rule_criteria (example_schema ! 2)
               = Dict \<lparr>pattern = Some (lit ''12''), min_length = None, blacklisted = None\<rparr>"
    and ep: "element_path (example_schema ! 2) = lit ''c''"
    by (simp_all add: example_schema_def)
  have t: "lit ''format'' \<noteq> lit ''required''" by (simp add: lit_def)
  have "apply_rule example_lib example_root (example_schema ! 2) (lit ''<r><c>12abc</c></r>'')
          = Inr []"
    by (simp add: apply_rule_def rt rc ep t check_format_def find_c strip_code m)
  with find_c strip_code ne m rt rc show ?thesis by (intro conjI)
qed

lemma format_violations_value:
  "\<forall>e\<in>set els. \<forall>s. elem_text e = Some s \<and> s \<noteq> [] \<longrightarrow> (\<exists>b. re_match lib pat (strip s) = Inr b)
   \<Longrightarrow> format_violations lib path pat els
       = Inr (map (\<lambda>e. lit ''Element '' @ sq @ path @ sq @ lit '' format invalid: ''
                         @ sq @ strip (the (elem_text e)) @ sq)
                (filter (\<lambda>e. case elem_text e of
                               None \<Rightarrow> False
                             | Some s \<Rightarrow> s \<noteq> [] \<and> re_match lib pat (strip s) = Inr False)
                   els))"
proof (induction els)
  case Nil
  then show ?case by simp
next
  case (Cons e es)
  from Cons.prems
  have rest: "\<forall>e\<in>set es. \<forall>s. elem_text e = Some s \<and> s \<noteq> []
                \<longrightarrow> (\<exists>b. re_match lib pat (strip s) = Inr b)"
    by simp
  note ih = Cons.IH [OF rest]
  show ?case
  proof (cases "elem_text e")
    case None
    with ih show ?thesis by simp
  next
    case (Some s)
    show ?thesis
    proof (cases "s = []")
      case True
      with Some ih show ?thesis by simp
    next
      case False
      with Cons.prems Some obtain b where b: "re_match lib pat (strip s) = Inr b" by auto
      with Some False ih show ?thesis by simp
    qed
  qed
qed

lemma format_violations_raises:
  "e \<in> set els \<Longrightarrow> elem_text e = Some s \<Longrightarrow> s \<noteq> [] \<Longrightarrow> re_match lib pat (strip s) = Inl x
   \<Longrightarrow> \<exists>y. format_violations lib path pat els = Inl y"
proof (induction els)
  case Nil
  then show ?case by simp
next
  case (Cons a es)
  show ?case
  proof (cases "e = a")
    case True
    with Cons.prems show ?thesis by simp
  next
    case False
    with Cons.prems have "e \<in> set es" by simp
    from Cons.IH [OF this Cons.prems(2,3,4)] obtain y where
      "format_violations lib path pat es = Inl y" by blast
    then show ?thesis by (simp split: option.splits sum.splits)
  qed
qed

text \<open>
  C5, amended. For a format rule whose criterion is a dictionary with a pattern: when
  the search for the elements of the path raises, so does the rule. When it returns
  and \<open>re.match\<close> returns on the trimmed text of every element found that has a
  non-empty text, the violations are one message for each element found, in order,
  that has a non-empty text on whose trimmed form \<open>re.match\<close> finds no match; an element
  without text raises no violation. When \<open>re.match\<close> raises on one of these texts, so
  does the rule.
\<close>

theorem format_rule_violations:
  assumes "rule_type rule = lit ''format''" and "rule_criteria rule = Dict d"
    and "pattern d = Some pat"
  shows "(\<forall>x. find_elements lib r (element_path rule) = Inl x
             \<longrightarrow> apply_rule lib r rule xml_content = Inl x)
         \<and> (\<forall>els. find_elements lib r (element_path rule) = Inr els \<longrightarrow>
               ((\<forall>e\<in>set els. \<forall>s. elem_text e = Some s \<and> s \<noteq> []
                     \<longrightarrow> (\<exists>b. re_match lib pat (strip s) = Inr b))
                \<longrightarrow> apply_rule lib r rule xml_content
                    = Inr (map (\<lambda>e. lit ''Element '' @ sq @ element_path rule @ sq
                                      @ lit '' format invalid: '' @ sq
                                      @ strip (the (elem_text e)) @ sq)
                             (filter (\<lambda>e. case elem_text e of
                                            None \<Rightarrow> False
                                          | Some s \<Rightarrow> s \<noteq> []
                                              \<and> re_match lib pat (strip s) = Inr False)
                                els)))
               \<and> ((\<exists>e\<in>set els. \<exists>s x. elem_text e = Some s \<and> s \<noteq> []
                      \<and> re_match lib pat (strip s) = Inl x)
                  \<longrightarrow> (\<exists>y. apply_rule lib r rule xml_content = Inl y)))"
proof -
  have ar: "apply_rule lib r rule xml_content
              = and_then (find_elements lib r (element_path rule))
                  (format_violations lib (element_path rule) pat)"
    using assms by (simp add: apply_rule_def check_format_def lit_def)
  show ?thesis
    unfolding ar
    using format_violations_value [of _ lib pat "element_path rule"]
      format_violations_raises [of _ _ _ lib pat _ "element_path rule"]
    by (auto simp del: format_violations.simps)
qed

theorem format_rule_violations_witness:
  "rule_type ((example_schema ! 2)\<lparr>rule_criteria :=
       Dict \<lparr>pattern = Some (lit ''13''), min_length = None, blacklisted = None\<rparr>\<rparr>)
     = lit ''format''
   \<and> find_elements example_lib example_root (lit ''c'')
       = Inr [Element (lit ''c'') (Some (lit ''12abc'')) []]
   \<and> re_match example_lib (lit ''13'') (strip (lit ''12abc'')) = Inr False
   \<and> apply_rule example_lib example_root
        ((example_schema ! 2)\<lparr>rule_criteria :=
           Dict \<lparr>pattern = Some (lit ''13''), min_length = None, blacklisted = None\<rparr>\<rparr>)
        (lit ''<r><c>12abc</c></r>'')
       = Inr [lit ''Element '' @ sq @ lit ''c'' @ sq @ lit '' format invalid: '' @ sq
                @ lit ''12abc'' @ sq]"
proof -
  define rule where
    "rule = (example_schema ! 2)\<lparr>rule_criteria :=
       Dict \<lparr>pattern = Some (lit ''13''), min_length = None, blacklisted = None\<rparr>\<rparr>"
  have rt: "rule_type rule = lit ''format''"
    and rc: "rule_criteria rule
               = Dict \<lparr>pattern = Some (lit ''13''), min_length = None, blacklisted = None\<rparr>"
    and ep: "element_path rule = lit ''c''"
    by (simp_all add: rule_def example_schema_def)
  have pt: "pattern \<lparr>pattern = Some (lit ''13''), min_length = None, blacklisted = None\<rparr>
              = Some (lit ''13'')"
    by simp
  have m: "re_match example_lib (lit ''13'') (strip (lit ''12abc'')) = Inr False"
    by (simp add: example_re_match strip_code prefix_13)
  have ne: "lit ''12abc'' \<noteq> []" by (simp add: lit_def)
  from format_rule_violations [OF rt rc pt, of example_lib example_root
         "lit ''<r><c>12abc</c></r>''"]
  have "apply_rule example_lib example_root rule (lit ''<r><c>12abc</c></r>'')
          = Inr [lit ''Element '' @ sq @ lit ''c'' @ sq @ lit '' format invalid: '' @ sq
                   @ lit ''12abc'' @ sq]"
    unfolding ep using m by (auto simp: find_c ne strip_code)
  with rt find_c m show ?thesis unfolding rule_def by (intro conjI)
qed


section \<open>Unknown schema and framework names\<close>

lemma select_metrics_fallback:
  "map_of quality_frameworks framework = None
   \<Longrightarrow> select_metrics quality_frameworks framework expected
       = select_metrics quality_frameworks (lit ''general_analysis'') expected"
  by (simp add: select_metrics_def)

lemma select_metrics_general:
  "map_of quality_frameworks (lit ''general_analysis'') = Some metrics
   \<Longrightarrow> select_metrics quality_frameworks (lit ''general_analysis'') expected
       = Inr (lit ''general_analysis'', metrics)"
proof -
  have "lit ''general_analysis'' \<noteq> lit ''structured_output''" by (simp add: lit_def)
  then show "map_of quality_frameworks (lit ''general_analysis'') = Some metrics
   \<Longrightarrow> select_metrics quality_frameworks (lit ''general_analysis'') expected
       = Inr (lit ''general_analysis'', metrics)"
    by (simp add: select_metrics_def Let_def split: option.split list.split)
qed

lemma parse_malformed:
  "fromstring example_lib (lit ''<a><b></a>'')
     = ParseError (lit ''mismatched tag: line 1, column 8'')"
  by (simp add: example_lib_def known_documents_def lit_def)

lemma example_general:
  "map_of example_frameworks (lit ''no_such_framework'') = None
   \<and> map_of example_frameworks (lit ''general_analysis'') = Some [length_metric]"
  by (simp add: example_frameworks_def lit_def)

lemma long_response:
  "evaluate_metric example_lib (replicate 200 120) length_metric = Inr (1, [], [])"
proof -
  have "measurement_type length_metric = lit ''count''" by (simp add: length_metric_def)
  then show ?thesis
    by (simp add: evaluate_count measure_count_def length_metric_def no_criteria_def strip_xs)
qed

lemma invalid_message:
  "lit ''Invalid XML: '' @ lit ''mismatched tag: line 1, column 8''
     = lit ''Invalid XML: mismatched tag: line 1, column 8''"
  by (simp add: lit_def)

text \<open>
  C6, as stated, has every fallback surfaced as a warning. With a malformed input the
  validator returns at the parse failure, before it looks the schema up: no warning
  tells of the unknown name. The analyzer replaces an unknown framework name by
  \<open>general_analysis\<close> and says nothing: its result has no field for warnings, and on a
  response that passes the general metric the issues and suggestions are empty.
\<close>

theorem unknown_name_fallback_counterexample:
  "validate_xml example_lib builtin_schemas [] (lit ''<a><b></a>'') (lit ''no_such_schema'')
     = Inr \<lparr>is_valid = False,
            errors = [lit ''Invalid XML: mismatched tag: line 1, column 8''],
            warnings = [], info = [], score = 0, element_count = 0\<rparr>
   \<and> map_of example_frameworks (lit ''no_such_framework'') = None
   \<and> snd (analyze_response example_lib example_frameworks (replicate 200 120)
            (lit ''no_such_framework'') None None)
       = Inr \<lparr>overall_score = 25, metric_scores = [(lit ''length'', 1)],
              issues_found = [], suggestions = [], confidence_level = 1,
              token_efficiency = None\<rparr>"
proof -
  have sel: "select_metrics example_frameworks (lit ''no_such_framework'') None
               = Inr (lit ''general_analysis'', [length_metric])"
    using example_general
    by (simp add: select_metrics_fallback select_metrics_general)
  have nm: "name length_metric = lit ''length''" and w: "weight length_metric = 1 / 4"
    by (simp_all add: length_metric_def)
  have fl: "float_sum example_lib = sum_list" "float_mul example_lib = (\<lambda>x y. x * y)"
    "float_div example_lib = (\<lambda>x y. x / y)"
    by (simp_all add: example_lib_def)
  have loop: "evaluate_metrics example_lib (replicate 200 120) [length_metric] ([], [], [])
                = Inr ([(lit ''length'', 1)], [], [])"
    by (simp add: long_response nm)
  have conf: "calculate_confidence example_lib [(lit ''length'', 1)] [length_metric] = Inr 1"
    by (simp add: calculate_confidence_def nm w fl)
  have a: "snd (analyze_response example_lib example_frameworks (replicate 200 120)
            (lit ''no_such_framework'') None None)
       = Inr \<lparr>overall_score = 25, metric_scores = [(lit ''length'', 1)],
              issues_found = [], suggestions = [], confidence_level = 1,
              token_efficiency = None\<rparr>"
    by (simp add: analyze_response_def sel loop conf nm w fl del: evaluate_metrics.simps)
  have v: "validate_xml example_lib builtin_schemas [] (lit ''<a><b></a>'') (lit ''no_such_schema'')
     = Inr \<lparr>is_valid = False,
            errors = [lit ''Invalid XML: mismatched tag: line 1, column 8''],
            warnings = [], info = [], score = 0, element_count = 0\<rparr>"
    using parse_error_result [OF parse_malformed] by (simp only: invalid_message)
  from v example_general [THEN conjunct1] a show ?thesis by (intro conjI)
qed

text \<open>
  C6, amended. For \<open>validate_xml\<close> on a well-formed input, with a schema name in
  neither registry and \<open>general_analysis\<close> among the built-in schemas: the call does
  what the call with the name \<open>general_analysis\<close> does. When that one returns a result,
  it returns the same result with one warning that names the unknown schema put before
  its warnings (errors, info, score and validity are those of the general rule set);
  it raises only when that one raises, which needs a general rule whose application
  raises. For \<open>analyze_response\<close> with a framework name that is not registered: the
  call behaves exactly as with the name \<open>general_analysis\<close>, without a warning or any
  other trace of the fallback, and it returns a result when \<open>general_analysis\<close> is
  registered with at least one metric and the measurement of each of its metrics
  returns.
\<close>

theorem unknown_name_fallback:
  "(fromstring lib xml_content = Parsed r \<and> map_of schemas schema_name = None
      \<and> map_of custom_schemas schema_name = None
      \<and> map_of schemas (lit ''general_analysis'') = Some rules
    \<longrightarrow> (\<forall>g. validate_xml lib schemas custom_schemas xml_content (lit ''general_analysis'')
                 = Inr g
               \<longrightarrow> validate_xml lib schemas custom_schemas xml_content schema_name
                   = Inr (g\<lparr>warnings := (lit ''Schema '' @ sq @ schema_name @ sq
                                           @ lit '' not found, using general validation'')
                                         # warnings g\<rparr>))
        \<and> (\<forall>x. validate_xml lib schemas custom_schemas xml_content (lit ''general_analysis'')
                   = Inl x
                 \<longrightarrow> validate_xml lib schemas custom_schemas xml_content schema_name = Inl x)
        \<and> ((\<forall>rule\<in>set rules. \<exists>v. apply_rule lib r rule xml_content = Inr v)
             \<longrightarrow> (\<exists>g. validate_xml lib schemas custom_schemas xml_content
                         (lit ''general_analysis'') = Inr g)))
   \<and> (map_of quality_frameworks framework = None
      \<longrightarrow> analyze_response lib quality_frameworks response framework expected usage
          = analyze_response lib quality_frameworks response (lit ''general_analysis'')
              expected usage)
   \<and> (map_of quality_frameworks framework = None
        \<and> map_of quality_frameworks (lit ''general_analysis'') = Some metrics \<and> metrics \<noteq> []
        \<and> (\<forall>m\<in>set metrics. \<exists>v. evaluate_metric lib response m = Inr v)
      \<longrightarrow> (\<exists>res registry.
             analyze_response lib quality_frameworks response framework expected usage
               = (registry, Inr res)))"
proof -
  have validator:
    "(\<forall>g. validate_xml lib schemas custom_schemas xml_content (lit ''general_analysis'') = Inr g
          \<longrightarrow> validate_xml lib schemas custom_schemas xml_content schema_name
              = Inr (g\<lparr>warnings := (lit ''Schema '' @ sq @ schema_name @ sq
                                      @ lit '' not found, using general validation'')
                                    # warnings g\<rparr>))
     \<and> (\<forall>x. validate_xml lib schemas custom_schemas xml_content (lit ''general_analysis'') = Inl x
            \<longrightarrow> validate_xml lib schemas custom_schemas xml_content schema_name = Inl x)
     \<and> ((\<forall>rule\<in>set rules. \<exists>v. apply_rule lib r rule xml_content = Inr v)
          \<longrightarrow> (\<exists>g. validate_xml lib schemas custom_schemas xml_content
                      (lit ''general_analysis'') = Inr g))"
    if h: "fromstring lib xml_content = Parsed r \<and> map_of schemas schema_name = None
      \<and> map_of custom_schemas schema_name = None
      \<and> map_of schemas (lit ''general_analysis'') = Some rules"
  proof -
    define wm where
      "wm = lit ''Schema '' @ sq @ schema_name @ sq @ lit '' not found, using general validation''"
    from h have parsed: "fromstring lib xml_content = Parsed r" by simp
    have s1: "select_rules schemas custom_schemas schema_name = Inr (rules, [wm])"
      using h by (simp add: select_rules_def wm_def)
    have s2: "select_rules schemas custom_schemas (lit ''general_analysis'') = Inr (rules, [])"
      using h by (simp add: select_rules_def)
    have both:
      "(\<forall>g. validate_xml lib schemas custom_schemas xml_content (lit ''general_analysis'') = Inr g
            \<longrightarrow> validate_xml lib schemas custom_schemas xml_content schema_name
                = Inr (g\<lparr>warnings := wm # warnings g\<rparr>))
       \<and> (\<forall>x. validate_xml lib schemas custom_schemas xml_content (lit ''general_analysis'') = Inl x
            \<longrightarrow> validate_xml lib schemas custom_schemas xml_content schema_name = Inl x)"
    proof (cases "apply_rules lib r xml_content rules ([], [], [])")
      case (Inl y)
      then have "apply_rules lib r xml_content rules ([], [wm], []) = Inl y"
        using apply_rules_acc [of lib r xml_content rules "[]" "[wm]" "[]"] by simp
      from validate_xml_raises [OF parsed s1 this] validate_xml_raises [OF parsed s2 Inl]
      show ?thesis by simp
    next
      case (Inr out)
      obtain e w i where out: "out = (e, w, i)" using prod_cases3 by blast
      from Inr have run: "apply_rules lib r xml_content rules ([], [], []) = Inr (e, w, i)"
        unfolding out .
      have run': "apply_rules lib r xml_content rules ([], [wm], []) = Inr (e, wm # w, i)"
        using apply_rules_acc [of lib r xml_content rules "[]" "[wm]" "[]"] by (simp add: run)
      from validate_xml_parsed [OF parsed s1 run'] validate_xml_parsed [OF parsed s2 run]
      show ?thesis by simp
    qed
    have ret: "\<exists>g. validate_xml lib schemas custom_schemas xml_content
                      (lit ''general_analysis'') = Inr g"
      if "\<forall>rule\<in>set rules. \<exists>v. apply_rule lib r rule xml_content = Inr v"
    proof -
      from apply_rules_returns [OF that] obtain e w i where
        "apply_rules lib r xml_content rules ([], [], []) = Inr (e, w, i)"
        using prod_cases3 by metis
      from validate_xml_parsed [OF parsed s2 this] show ?thesis by blast
    qed
    from both ret show ?thesis unfolding wm_def by blast
  qed
  have same: "analyze_response lib quality_frameworks response framework expected usage
          = analyze_response lib quality_frameworks response (lit ''general_analysis'')
              expected usage"
    if "map_of quality_frameworks framework = None"
    using that by (simp add: analyze_response_def select_metrics_fallback)
  have returns: "\<exists>res registry.
             analyze_response lib quality_frameworks response framework expected usage
               = (registry, Inr res)"
    if h: "map_of quality_frameworks framework = None
        \<and> map_of quality_frameworks (lit ''general_analysis'') = Some metrics \<and> metrics \<noteq> []
        \<and> (\<forall>m\<in>set metrics. \<exists>v. evaluate_metric lib response m = Inr v)"
  proof -
    from h have sel: "select_metrics quality_frameworks framework expected
                        = Inr (lit ''general_analysis'', metrics)"
      by (simp add: select_metrics_fallback select_metrics_general)
    from h have ne: "metrics \<noteq> []"
      and ev: "\<forall>m\<in>set metrics. \<exists>v. evaluate_metric lib response m = Inr v"
      by simp_all
    from analyze_response_run [OF sel ne ev, of usage] obtain res where
      "snd (analyze_response lib quality_frameworks response framework expected usage) = Inr res"
      by blast
    then show ?thesis by (metis prod.collapse)
  qed
  from validator same returns show ?thesis by blast
qed

lemma split_confidence: "split 47 (lit ''*/confidence'') = [lit ''*'', lit ''confidence'']"
  by (simp add: lit_def)

lemma find_confidence:
  "find_elements example_lib example_root (lit ''*/confidence'') = Inr []"
proof -
  have n: "lit ''*/confidence'' \<noteq> lit ''*''" "lit ''*'' \<noteq> []" "lit ''confidence'' \<noteq> []"
    "lit ''confidence'' \<noteq> lit ''*''"
    by (simp_all add: lit_def)
  show ?thesis
    by (simp add: find_elements_def n split_confidence example_findall example_root_def)
qed

lemma general_rule_results:
  "map (\<lambda>rule. apply_rule example_lib example_root rule (lit ''<r><c>12abc</c></r>''))
     create_general_schema = [Inr [], Inr []]"
proof -
  define r0 where "r0 = create_general_schema ! 0"
  define r1 where "r1 = create_general_schema ! 1"
  have s: "create_general_schema = [r0, r1]"
    by (simp add: r0_def r1_def create_general_schema_def)
  have t: "lit ''format'' \<noteq> lit ''required''" by (simp add: lit_def)
  have a0: "apply_rule example_lib example_root r0 (lit ''<r><c>12abc</c></r>'') = Inr []"
    by (simp add: r0_def create_general_schema_def apply_rule_def check_format_def t)
  have a1: "apply_rule example_lib example_root r1 (lit ''<r><c>12abc</c></r>'') = Inr []"
    by (simp add: r1_def create_general_schema_def apply_rule_def check_format_def t
          find_confidence)
  show ?thesis unfolding s by (simp add: a0 a1)
qed

lemma count_returns:
  assumes "measurement_type m = lit ''count''" and "min_chars (criteria m) = Some t"
  shows "\<exists>v. evaluate_metric lib r m = Inr v"
proof (cases "t \<le> int (length (strip r))")
  case True
  with assms have "evaluate_metric lib r m = Inr (1, [], [])"
    by (simp add: evaluate_count measure_count_def)
  then show ?thesis by (rule exI)
next
  case False
  with assms
  have "evaluate_metric lib r m
          = Inr (real (length (strip r)) / real_of_int t,
                 [lit ''Response too short: '' @ str_nat (length (strip r))
                    @ lit '' chars (minimum '' @ str_int t @ lit '')''],
                 [lit ''Provide more detailed analysis (at least '' @ str_int t
                    @ lit '' characters)''])"
    by (simp add: evaluate_count measure_count_def Let_def)
  then show ?thesis by (rule exI)
qed

theorem unknown_name_fallback_witness:
  "fromstring example_lib (lit ''<r><c>12abc</c></r>'') = Parsed example_root
   \<and> map_of builtin_schemas (lit ''no_such_schema'') = None
   \<and> map_of ([] :: (str \<times> validation_rule list) list) (lit ''no_such_schema'') = None
   \<and> map_of builtin_schemas (lit ''general_analysis'') = Some create_general_schema
   \<and> map (\<lambda>rule. apply_rule example_lib example_root rule (lit ''<r><c>12abc</c></r>''))
       create_general_schema = [Inr [], Inr []]
   \<and> map_of example_frameworks (lit ''no_such_framework'') = None
   \<and> map_of example_frameworks (lit ''general_analysis'') = Some [length_metric]
   \<and> (\<exists>v. evaluate_metric example_lib (lit ''some text'') length_metric = Inr v)
   \<and> (\<exists>g. validate_xml example_lib builtin_schemas [] (lit ''<r><c>12abc</c></r>'')
              (lit ''general_analysis'') = Inr g
          \<and> validate_xml example_lib builtin_schemas [] (lit ''<r><c>12abc</c></r>'')
              (lit ''no_such_schema'')
              = Inr (g\<lparr>warnings := (lit ''Schema '' @ sq @ lit ''no_such_schema'' @ sq
                                      @ lit '' not found, using general validation'')
                                    # warnings g\<rparr>))
   \<and> analyze_response example_lib example_frameworks (lit ''some text'')
        (lit ''no_such_framework'') None None
       = analyze_response example_lib example_frameworks (lit ''some text'')
           (lit ''general_analysis'') None None
   \<and> (\<exists>res registry.
         analyze_response example_lib example_frameworks (lit ''some text'')
           (lit ''no_such_framework'') None None = (registry, Inr res))"
proof -
  have b1: "map_of builtin_schemas (lit ''no_such_schema'') = None"
    and b2: "map_of ([] :: (str \<times> validation_rule list) list) (lit ''no_such_schema'') = None"
    and b3: "map_of builtin_schemas (lit ''general_analysis'') = Some create_general_schema"
    by (simp_all add: builtin_schemas_def lit_def)
  note g1 = example_general [THEN conjunct1] and g2 = example_general [THEN conjunct2]
  have ne: "[length_metric] \<noteq> []" by simp
  have rules: "\<forall>rule\<in>set create_general_schema.
                 \<exists>v. apply_rule example_lib example_root rule (lit ''<r><c>12abc</c></r>'') = Inr v"
  proof
    fix rule assume "rule \<in> set create_general_schema"
    then have "apply_rule example_lib example_root rule (lit ''<r><c>12abc</c></r>'')
                 \<in> set (map (\<lambda>rule. apply_rule example_lib example_root rule
                                       (lit ''<r><c>12abc</c></r>'')) create_general_schema)"
      by simp
    then show "\<exists>v. apply_rule example_lib example_root rule (lit ''<r><c>12abc</c></r>'') = Inr v"
      unfolding general_rule_results by auto
  qed
  have "measurement_type length_metric = lit ''count''"
    and "min_chars (criteria length_metric) = Some 200"
    by (simp_all add: length_metric_def no_criteria_def)
  then have e: "\<exists>v. evaluate_metric example_lib (lit ''some text'') length_metric = Inr v"
    by (rule count_returns)
  then have ev: "\<forall>m\<in>set [length_metric].
                   \<exists>v. evaluate_metric example_lib (lit ''some text'') m = Inr v"
    by simp
  note fallback = unknown_name_fallback
    [of example_lib "lit ''<r><c>12abc</c></r>''" example_root builtin_schemas
        "lit ''no_such_schema''" "[]" create_general_schema example_frameworks
        "lit ''no_such_framework''" "lit ''some text''" None None "[length_metric]"]
  note validator = mp [OF fallback [THEN conjunct1]
                         conjI [OF parse_example conjI [OF b1 conjI [OF b2 b3]]]]
  from mp [OF validator [THEN conjunct2, THEN conjunct2] rules] obtain g where
    g: "validate_xml example_lib builtin_schemas [] (lit ''<r><c>12abc</c></r>'')
          (lit ''general_analysis'') = Inr g"
    by blast
  from validator [THEN conjunct1] g
  have "validate_xml example_lib builtin_schemas [] (lit ''<r><c>12abc</c></r>'')
          (lit ''no_such_schema'')
          = Inr (g\<lparr>warnings := (lit ''Schema '' @ sq @ lit ''no_such_schema'' @ sq
                                  @ lit '' not found, using general validation'')
                                # warnings g\<rparr>)"
    by blast
  with g have v: "\<exists>g. validate_xml example_lib builtin_schemas [] (lit ''<r><c>12abc</c></r>'')
              (lit ''general_analysis'') = Inr g
          \<and> validate_xml example_lib builtin_schemas [] (lit ''<r><c>12abc</c></r>'')
              (lit ''no_such_schema'')
              = Inr (g\<lparr>warnings := (lit ''Schema '' @ sq @ lit ''no_such_schema'' @ sq
                                      @ lit '' not found, using general validation'')
                                    # warnings g\<rparr>)"
    by blast
  have a: "analyze_response example_lib example_frameworks (lit ''some text'')
        (lit ''no_such_framework'') None None
       = analyze_response example_lib example_frameworks (lit ''some text'')
           (lit ''general_analysis'') None None"
    by (rule mp [OF fallback [THEN conjunct2, THEN conjunct1]]) (rule g1)
  have r: "\<exists>res registry.
         analyze_response example_lib example_frameworks (lit ''some text'')
           (lit ''no_such_framework'') None None = (registry, Inr res)"
    by (rule mp [OF fallback [THEN conjunct2, THEN conjunct2]])
      (rule conjI [OF g1 conjI [OF g2 conjI [OF ne ev]]])
  from parse_example b1 b2 b3 general_rule_results g1 g2 e v a r show ?thesis by (intro conjI)
qed

end
